theory Spec2Isabelle
  imports Complex_Main
begin

section \<open>Values, failures and upstream calls\<close>

text \<open>
  The adapters are TypeScript modules that register tools on an MCP server. Every tool
  callback is an async function that returns \<^verbatim>\<open>{ content: [{ type: "text", text }] }\<close>
  or rejects with a thrown value. Strings are lists of 8-bit characters here (the degree
  sign of the weather reports is the single character 0xB0).
\<close>

datatype content = Text string

text \<open>
  What a \<^verbatim>\<open>throw\<close> carries: an instance of \<^verbatim>\<open>Error\<close> with its message, or any
  other value (the weather handlers test \<^verbatim>\<open>e instanceof Error\<close>).
\<close>

datatype thrown = JsError string | NonError

text \<open>
  An async computation over a log of the upstream calls issued so far: it returns the
  value or the thrown value, and the log extended by the calls it made, in order.
\<close>

type_synonym ('c, 'a) io = "'c list \<Rightarrow> (thrown + 'a) \<times> 'c list"

definition return :: "'a \<Rightarrow> ('c, 'a) io" where
  "return x = (\<lambda>calls. (Inr x, calls))"

definition throw :: "thrown \<Rightarrow> ('c, 'a) io" where
  "throw e = (\<lambda>calls. (Inl e, calls))"

definition bind :: "('c, 'a) io \<Rightarrow> ('a \<Rightarrow> ('c, 'b) io) \<Rightarrow> ('c, 'b) io" where
  "bind m f = (\<lambda>calls. case m calls of
                  (Inl e, calls') \<Rightarrow> (Inl e, calls')
                | (Inr x, calls') \<Rightarrow> f x calls')"

definition lift :: "thrown + 'a \<Rightarrow> ('c, 'a) io" where
  "lift r = (\<lambda>calls. (r, calls))"

text \<open>\<^verbatim>\<open>try { m } catch (e) { h(e) }\<close>\<close>

definition try_catch :: "('c, 'a) io \<Rightarrow> (thrown \<Rightarrow> ('c, 'a) io) \<Rightarrow> ('c, 'a) io" where
  "try_catch m h = (\<lambda>calls. case m calls of
                       (Inl e, calls') \<Rightarrow> h e calls'
                     | (Inr x, calls') \<Rightarrow> (Inr x, calls'))"

text \<open>
  What \<^verbatim>\<open>fetch(url)\<close> followed by \<^verbatim>\<open>response.json()\<close> can do: \<open>Rejected m\<close> is a
  transport-level failure (the promise rejects with a \<^verbatim>\<open>TypeError\<close> of message \<open>m\<close>);
  \<open>Response status statusText body\<close> is an HTTP response, whose body either fails to
  parse (\<open>Inl m\<close>, a \<^verbatim>\<open>SyntaxError\<close> of message \<open>m\<close>) or is the parsed JSON. The
  TypeScript casts the parsed JSON to the interface it expects; the type parameter is
  that interface. The stub answers from the calls made so far and the URL.
\<close>

datatype 'b fetch_outcome = Rejected string | Response nat string "string + 'b"

type_synonym 'b fetch = "string list \<Rightarrow> string \<Rightarrow> 'b fetch_outcome"

subsection \<open>Strings and numbers of the JavaScript runtime\<close>

text \<open>\<^verbatim>\<open>s.includes(sub)\<close>\<close>

fun starts_with :: "string \<Rightarrow> string \<Rightarrow> bool" where
  "starts_with s [] = True"
| "starts_with [] (c # cs) = False"
| "starts_with (d # ds) (c # cs) = (d = c \<and> starts_with ds cs)"

fun str_includes :: "string \<Rightarrow> string \<Rightarrow> bool" where
  "str_includes [] sub = (sub = [])"
| "str_includes (c # cs) sub = (starts_with (c # cs) sub \<or> str_includes cs sub)"

definition digit_char :: "nat \<Rightarrow> char" where
  "digit_char d =
     (if d = 0 then CHR ''0'' else if d = 1 then CHR ''1'' else if d = 2 then CHR ''2''
      else if d = 3 then CHR ''3'' else if d = 4 then CHR ''4'' else if d = 5 then CHR ''5''
      else if d = 6 then CHR ''6'' else if d = 7 then CHR ''7'' else if d = 8 then CHR ''8''
      else CHR ''9'')"

text \<open>The decimal digits of a natural number, as a template literal prints an integer.\<close>

fun show_nat :: "nat \<Rightarrow> string" where
  "show_nat n = (if n < 10 then [digit_char n] else show_nat (n div 10) @ [digit_char (n mod 10)])"

declare show_nat.simps [simp del]

definition show_int :: "int \<Rightarrow> string" where
  "show_int i = (if i < 0 then ''-'' @ show_nat (nat (- i)) else show_nat (nat i))"

text \<open>
  A JavaScript number is an IEEE double; the model takes the rational it stands for, so
  rounding, NaN and the infinities are outside it. \<^verbatim>\<open>Number.prototype.toString\<close> prints
  an integral value below \<open>10^21\<close> as its decimal digits; what it prints for any other value,
  and the locale- and rounding-dependent formatters, are parameters of the model.
\<close>

record js_runtime =
  frac_to_string :: "rat \<Rightarrow> string"
  toFixed :: "rat \<Rightarrow> nat \<Rightarrow> string"
  toLocaleString :: "string \<Rightarrow> string"
  toLocaleTimeString :: "string \<Rightarrow> string"
  toLocaleDateString :: "string \<Rightarrow> string"

definition is_integral :: "rat \<Rightarrow> bool" where
  "is_integral x = (of_int \<lfloor>x\<rfloor> = x)"

definition number_to_string :: "js_runtime \<Rightarrow> rat \<Rightarrow> string" where
  "number_to_string rt x =
     (if is_integral x \<and> \<bar>x\<bar> < 10 ^ 21 then show_int \<lfloor>x\<rfloor> else frac_to_string rt x)"

text \<open>\<^verbatim>\<open>ToIntegerOrInfinity\<close>: truncation towards zero.\<close>

definition trunc :: "rat \<Rightarrow> int" where
  "trunc x = (if 0 \<le> x then \<lfloor>x\<rfloor> else \<lceil>x\<rceil>)"

text \<open>\<^verbatim>\<open>xs.slice(0, n)\<close>: a negative end counts from the end of the array.\<close>

definition slice0 :: "'a list \<Rightarrow> rat \<Rightarrow> 'a list" where
  "slice0 xs n =
     (let k = trunc n in
      if k < 0 then take (length xs - nat (- k)) xs else take (nat k) xs)"

definition is_digit :: "char \<Rightarrow> bool" where
  "is_digit c = (c \<in> set ''0123456789'')"

definition digit_val :: "char \<Rightarrow> nat" where
  "digit_val c = of_char c - 48"

definition digits_val :: "string \<Rightarrow> nat" where
  "digits_val ds = foldl (\<lambda>a c. 10 * a + digit_val c) 0 ds"

text \<open>The class \<^verbatim>\<open>\s\<close> of a regular expression, among 8-bit characters.\<close>

definition is_space :: "char \<Rightarrow> bool" where
  "is_space c = (c \<in> set [CHR 0x09, CHR 0x0A, CHR 0x0B, CHR 0x0C, CHR 0x0D, CHR 0x20, CHR 0xA0])"

definition is_upper :: "char \<Rightarrow> bool" where
  "is_upper c = (c \<in> set ''ABCDEFGHIJKLMNOPQRSTUVWXYZ'')"

text \<open>
  \<^verbatim>\<open>toLowerCase\<close> on the ASCII letters. JavaScript also lower-cases letters outside
  ASCII; they stay outside ASCII, so they never make a text equal to an ASCII literal.
\<close>

definition to_lower_char :: "char \<Rightarrow> char" where
  "to_lower_char c =
     (case map_of (zip ''ABCDEFGHIJKLMNOPQRSTUVWXYZ'' ''abcdefghijklmnopqrstuvwxyz'') c of
        Some d \<Rightarrow> d | None \<Rightarrow> c)"

definition toLowerCase :: "string \<Rightarrow> string" where
  "toLowerCase s = map to_lower_char s"

definition nl :: string where
  "nl = [CHR 0x0A]"

definition dq :: string where
  "dq = [CHR 0x22]"

definition deg :: string where
  "deg = [CHR 0xB0]"

section \<open>The weather adapter\<close>

definition WEATHER_API_BASE :: string where
  "WEATHER_API_BASE = ''https://api.weather.gov''"

definition msg_not_found :: string where
  "msg_not_found = ''Location not found or no data available''"

definition msg_unavailable :: string where
  "msg_unavailable = ''Weather service temporarily unavailable''"

definition msg_cannot_connect :: string where
  "msg_cannot_connect =
     ''Unable to connect to weather service. Please check your internet connection.''"

definition msg_api_error :: "nat \<Rightarrow> string \<Rightarrow> string" where
  "msg_api_error status statusText =
     ''Weather API error: '' @ show_nat status @ '' '' @ statusText"

definition response_ok :: "nat \<Rightarrow> bool" where
  "response_ok status = (200 \<le> status \<and> status \<le> 299)"

text \<open>
  The body of the \<^verbatim>\<open>try\<close> block of \<^verbatim>\<open>weatherApiRequest\<close>: the request, the status
  checks and the JSON parse. Every one of its failures is a thrown \<^verbatim>\<open>Error\<close>.
\<close>

definition weatherApiRequest_try :: "'b fetch_outcome \<Rightarrow> thrown + 'b" where
  "weatherApiRequest_try r =
     (case r of
        Rejected m \<Rightarrow> Inl (JsError m)
      | Response status statusText body \<Rightarrow>
          if \<not> response_ok status then
            (if status = 404 then Inl (JsError msg_not_found)
             else if status = 500 then Inl (JsError msg_unavailable)
             else Inl (JsError (msg_api_error status statusText)))
          else (case body of Inl m \<Rightarrow> Inl (JsError m) | Inr b \<Rightarrow> Inr b))"

text \<open>
  The \<^verbatim>\<open>catch\<close> block of \<^verbatim>\<open>weatherApiRequest\<close>: an \<^verbatim>\<open>Error\<close> whose message contains
  "fetch" is replaced by the connectivity error, anything else is thrown again.
\<close>

definition weatherApiRequest_catch :: "thrown \<Rightarrow> thrown" where
  "weatherApiRequest_catch e =
     (case e of
        JsError m \<Rightarrow> if str_includes m ''fetch'' then JsError msg_cannot_connect else JsError m
      | NonError \<Rightarrow> NonError)"

definition weatherApiRequest :: "'b fetch \<Rightarrow> string \<Rightarrow> (string, 'b) io" where
  "weatherApiRequest fetch endpoint =
     (\<lambda>calls. let url = WEATHER_API_BASE @ endpoint in
        (case weatherApiRequest_try (fetch calls url) of
           Inl e \<Rightarrow> (Inl (weatherApiRequest_catch e), calls @ [url])
         | Inr b \<Rightarrow> (Inr b, calls @ [url])))"

subsection \<open>Locations\<close>

record coords =
  latitude :: rat
  longitude :: rat

text \<open>A whole string matching \<^verbatim>\<open>-?\d+\.?\d*\<close>.\<close>

definition unsigned_part :: "string \<Rightarrow> string" where
  "unsigned_part s = (case s of [] \<Rightarrow> [] | c # r \<Rightarrow> if c = CHR ''-'' then r else s)"

definition match_decimal :: "string \<Rightarrow> bool" where
  "match_decimal s =
     (let body = unsigned_part s;
          ip = takeWhile is_digit body;
          rest = dropWhile is_digit body
      in ip \<noteq> [] \<and>
         (case rest of [] \<Rightarrow> True | c # fp \<Rightarrow> c = CHR ''.'' \<and> list_all is_digit fp))"

text \<open>\<^verbatim>\<open>Number.parseFloat\<close> on a string that matches \<^verbatim>\<open>-?\d+\.?\d*\<close>.\<close>

definition parseFloat :: "string \<Rightarrow> rat" where
  "parseFloat s =
     (let body = unsigned_part s;
          ip = takeWhile is_digit body;
          fp = drop 1 (dropWhile is_digit body);
          v = of_nat (digits_val ip) + of_nat (digits_val fp) / 10 ^ length fp
      in if body = s then v else - v)"

text \<open>
  The groups of \<^verbatim>\<open>/^(-?\d+\.?\d*),\s*(-?\d+\.?\d*)$/\<close>. Neither group can hold a comma or
  a space, so the first group is the text before the first comma and the second is what
  follows the spaces after it.
\<close>

definition coordMatch :: "string \<Rightarrow> (string \<times> string) option" where
  "coordMatch location =
     (let g1 = takeWhile (\<lambda>c. c \<noteq> CHR '','') location in
      case dropWhile (\<lambda>c. c \<noteq> CHR '','') location of
        [] \<Rightarrow> None
      | comma # after \<Rightarrow>
          (let g2 = dropWhile is_space after in
           if match_decimal g1 \<and> match_decimal g2 then Some (g1, g2) else None))"

definition msg_location :: "string \<Rightarrow> string" where
  "msg_location location =
     ''Location parsing not yet implemented for '' @ dq @ location @ dq @
     ''. Please provide coordinates in '' @ dq @ ''latitude,longitude'' @ dq @
     '' format (e.g., '' @ dq @ ''40.7128,-74.0060'' @ dq @ '')''"

definition parseLocation :: "string \<Rightarrow> thrown + coords" where
  "parseLocation location =
     (case coordMatch location of
        Some (g1, g2) \<Rightarrow> Inr \<lparr>latitude = parseFloat g1, longitude = parseFloat g2\<rparr>
      | None \<Rightarrow> Inl (JsError (msg_location location)))"

subsection \<open>Upstream bodies\<close>

text \<open>
  The interfaces the responses are cast to, with the fields the handlers read. A field
  the code guards (\<^verbatim>\<open>x?.value\<close>, \<^verbatim>\<open>features || []\<close>, \<^verbatim>\<open>value !== null\<close>) is an option:
  \<open>None\<close> is the absent or null case.
\<close>

record PointMetadata =
  gridId :: string
  gridX :: rat
  gridY :: rat

record Station =
  stationIdentifier :: string
  station_name :: string
  elevation :: "rat option"
  distance :: "rat option"

record StationCollection =
  station_features :: "Station list option"

record Period =
  name :: string
  temperature :: rat
  temperatureUnit :: string
  shortForecast :: string
  detailedForecast :: string
  windSpeed :: "string option"
  windDirection :: "string option"
  probabilityOfPrecipitation :: "rat option"

record ForecastResponse =
  updateTime :: string
  periods :: "Period list"

record HourlyPeriod =
  startTime :: string
  hourly_temperature :: rat
  hourly_temperatureUnit :: string
  hourly_shortForecast :: string
  hourly_probabilityOfPrecipitation :: "rat option"

record HourlyForecastResponse =
  hourly_updateTime :: string
  hourly_periods :: "HourlyPeriod list"

record Alert =
  event :: string
  severity :: string
  urgency :: string
  areaDesc :: string
  effective :: "string option"
  expires :: "string option"
  description :: string
  instruction :: "string option"

record AlertCollection =
  alert_features :: "Alert list option"

record Observation =
  timestamp :: string
  obs_temperature :: "rat option"
  heatIndex :: "rat option"
  windChill :: "rat option"
  textDescription :: "string option"
  relativeHumidity :: "rat option"
  obs_windSpeed :: "rat option"
  obs_windDirection :: "rat option"
  barometricPressure :: "rat option"
  visibility :: "rat option"

record ObservationResponse =
  obs_properties :: "Observation option"

text \<open>The stub upstream of the weather adapter: one typed answer per interface.\<close>

record weather_upstream =
  fetch_point :: "PointMetadata fetch"
  fetch_stations :: "StationCollection fetch"
  fetch_observation :: "ObservationResponse fetch"
  fetch_forecast :: "ForecastResponse fetch"
  fetch_hourly :: "HourlyForecastResponse fetch"
  fetch_alerts :: "AlertCollection fetch"

definition pointsPath :: "js_runtime \<Rightarrow> rat \<Rightarrow> rat \<Rightarrow> string" where
  "pointsPath rt lat lon = ''/points/'' @ number_to_string rt lat @ '','' @ number_to_string rt lon"

definition getPointMetadata ::
  "js_runtime \<Rightarrow> PointMetadata fetch \<Rightarrow> rat \<Rightarrow> rat \<Rightarrow> (string, PointMetadata) io" where
  "getPointMetadata rt fetch lat lon = weatherApiRequest fetch (pointsPath rt lat lon)"

definition observationPath :: "string \<Rightarrow> string" where
  "observationPath stationId = ''/stations/'' @ stationId @ ''/observations/latest''"

definition gridpointPath :: "js_runtime \<Rightarrow> PointMetadata \<Rightarrow> string" where
  "gridpointPath rt pointData =
     ''/gridpoints/'' @ gridId pointData @ ''/'' @ number_to_string rt (gridX pointData) @
     '','' @ number_to_string rt (gridY pointData)"

text \<open>
  The \<^verbatim>\<open>catch (e: unknown)\<close> that closes every weather handler:
  \<^verbatim>\<open>`Error: ${e instanceof Error ? e.message : "Unknown error"}`\<close>.
\<close>

definition error_text :: "thrown \<Rightarrow> string" where
  "error_text e = ''Error: '' @ (case e of JsError m \<Rightarrow> m | NonError \<Rightarrow> ''Unknown error'')"

definition handler_catch :: "('c, content list) io \<Rightarrow> ('c, content list) io" where
  "handler_catch body = try_catch body (\<lambda>e. return [Text (error_text e)])"

text \<open>Truthiness of an optional string and of an optional number.\<close>

definition truthy_str :: "string option \<Rightarrow> bool" where
  "truthy_str s = (case s of None \<Rightarrow> False | Some t \<Rightarrow> t \<noteq> [])"

definition truthy_num :: "rat option \<Rightarrow> bool" where
  "truthy_num x = (case x of None \<Rightarrow> False | Some v \<Rightarrow> v \<noteq> 0)"

subsection \<open>get\_weather\_forecast\<close>

definition period_markdown :: "js_runtime \<Rightarrow> Period \<Rightarrow> string" where
  "period_markdown rt period =
     ''## '' @ name period @ nl @ nl @
     ''**Temperature:** '' @ number_to_string rt (temperature period) @ deg @
       temperatureUnit period @ nl @
     ''**Conditions:** '' @ shortForecast period @ nl @
     (case probabilityOfPrecipitation period of
        None \<Rightarrow> []
      | Some v \<Rightarrow> if v \<noteq> 0
          then ''**Precipitation:** '' @ number_to_string rt v @ ''% chance'' @ nl else []) @
     (case (windSpeed period, windDirection period) of
        (Some ws, Some wd) \<Rightarrow> if ws \<noteq> [] \<and> wd \<noteq> []
          then ''**Wind:** '' @ ws @ '' '' @ wd @ nl else []
      | _ \<Rightarrow> []) @
     nl @ detailedForecast period @ nl @ nl @
     ''---'' @ nl @ nl"

definition forecast_header :: "js_runtime \<Rightarrow> coords \<Rightarrow> rat \<Rightarrow> ForecastResponse \<Rightarrow> string" where
  "forecast_header rt c days forecastData =
     ''# '' @ number_to_string rt days @ ''-Day Weather Forecast'' @ nl @ nl @
     ''**Location:** '' @ number_to_string rt (latitude c) @ '', '' @
       number_to_string rt (longitude c) @ nl @
     ''**Updated:** '' @ toLocaleString rt (updateTime forecastData) @ nl @ nl"

definition forecast_markdown :: "js_runtime \<Rightarrow> coords \<Rightarrow> rat \<Rightarrow> ForecastResponse \<Rightarrow> string" where
  "forecast_markdown rt c days forecastData =
     foldl (\<lambda>markdown period. markdown @ period_markdown rt period)
       (forecast_header rt c days forecastData)
       (slice0 (periods forecastData) (days * 2))"

text \<open>The \<^verbatim>\<open>try\<close> block of the handler, then the handler with its \<^verbatim>\<open>catch\<close>.\<close>

definition get_weather_forecast_try ::
  "js_runtime \<Rightarrow> weather_upstream \<Rightarrow> string \<Rightarrow> rat \<Rightarrow> (string, content list) io" where
  "get_weather_forecast_try rt up location days =
     bind (lift (parseLocation location)) (\<lambda>c.
     bind (getPointMetadata rt (fetch_point up) (latitude c) (longitude c)) (\<lambda>pointData.
     bind (weatherApiRequest (fetch_forecast up) (gridpointPath rt pointData @ ''/forecast''))
       (\<lambda>forecastData.
     return [Text (forecast_markdown rt c days forecastData)])))"

definition get_weather_forecast ::
  "js_runtime \<Rightarrow> weather_upstream \<Rightarrow> string \<Rightarrow> rat \<Rightarrow> (string, content list) io" where
  "get_weather_forecast rt up location days =
     handler_catch (get_weather_forecast_try rt up location days)"

subsection \<open>get\_hourly\_forecast\<close>

definition hourly_line :: "js_runtime \<Rightarrow> HourlyPeriod \<Rightarrow> string" where
  "hourly_line rt period =
     ''**'' @ toLocaleTimeString rt (startTime period) @ '' ('' @
       toLocaleDateString rt (startTime period) @ '')** - '' @
       number_to_string rt (hourly_temperature period) @ deg @ hourly_temperatureUnit period @
       '' - '' @ hourly_shortForecast period @
     (case hourly_probabilityOfPrecipitation period of
        None \<Rightarrow> []
      | Some v \<Rightarrow> if v \<noteq> 0 then '' - '' @ number_to_string rt v @ ''% rain'' else []) @
     nl"

definition hourly_markdown ::
  "js_runtime \<Rightarrow> coords \<Rightarrow> rat \<Rightarrow> HourlyForecastResponse \<Rightarrow> string" where
  "hourly_markdown rt c hours forecastData =
     foldl (\<lambda>markdown period. markdown @ hourly_line rt period)
       (''# '' @ number_to_string rt hours @ ''-Hour Weather Forecast'' @ nl @ nl @
        ''**Location:** '' @ number_to_string rt (latitude c) @ '', '' @
          number_to_string rt (longitude c) @ nl @
        ''**Updated:** '' @ toLocaleString rt (hourly_updateTime forecastData) @ nl @ nl)
       (slice0 (hourly_periods forecastData) hours)"

definition get_hourly_forecast_try ::
  "js_runtime \<Rightarrow> weather_upstream \<Rightarrow> string \<Rightarrow> rat \<Rightarrow> (string, content list) io" where
  "get_hourly_forecast_try rt up location hours =
     bind (lift (parseLocation location)) (\<lambda>c.
     bind (getPointMetadata rt (fetch_point up) (latitude c) (longitude c)) (\<lambda>pointData.
     bind (weatherApiRequest (fetch_hourly up) (gridpointPath rt pointData @ ''/forecast/hourly''))
       (\<lambda>forecastData.
     return [Text (hourly_markdown rt c hours forecastData)])))"

definition get_hourly_forecast ::
  "js_runtime \<Rightarrow> weather_upstream \<Rightarrow> string \<Rightarrow> rat \<Rightarrow> (string, content list) io" where
  "get_hourly_forecast rt up location hours =
     handler_catch (get_hourly_forecast_try rt up location hours)"

subsection \<open>get\_weather\_alerts\<close>

text \<open>\<^verbatim>\<open>location.length === 2 && location.match(/^[A-Z]{2}$/)\<close>\<close>

definition is_state_code :: "string \<Rightarrow> bool" where
  "is_state_code location = (length location = 2 \<and> list_all is_upper location)"

text \<open>
  The endpoint the handler settles on: the area of a state code, the point of a
  coordinate pair, and for any other text (the inner \<^verbatim>\<open>catch\<close>) all active alerts.
\<close>

definition alertsEndpoint :: "js_runtime \<Rightarrow> string \<Rightarrow> string" where
  "alertsEndpoint rt location =
     (if is_state_code location then ''/alerts/active'' @ ''/area/'' @ location
      else (case parseLocation location of
              Inr c \<Rightarrow> ''/alerts/active'' @ ''?point='' @ number_to_string rt (latitude c) @
                        '','' @ number_to_string rt (longitude c)
            | Inl e \<Rightarrow> ''/alerts/active''))"

definition alert_markdown :: "js_runtime \<Rightarrow> Alert \<Rightarrow> string" where
  "alert_markdown rt props =
     ''## '' @ event props @ nl @ nl @
     ''**Severity:** '' @ severity props @ nl @
     ''**Urgency:** '' @ urgency props @ nl @
     ''**Areas:** '' @ areaDesc props @ nl @
     (case effective props of
        None \<Rightarrow> []
      | Some t \<Rightarrow> if t \<noteq> [] then ''**Effective:** '' @ toLocaleString rt t @ nl else []) @
     (case expires props of
        None \<Rightarrow> []
      | Some t \<Rightarrow> if t \<noteq> [] then ''**Expires:** '' @ toLocaleString rt t @ nl else []) @
     nl @ ''**Description:**'' @ nl @ description props @ nl @ nl @
     (case instruction props of
        None \<Rightarrow> []
      | Some t \<Rightarrow> if t \<noteq> [] then ''**Instructions:**'' @ nl @ t @ nl @ nl else []) @
     ''---'' @ nl @ nl"

definition filterAlerts :: "string \<Rightarrow> Alert list \<Rightarrow> Alert list" where
  "filterAlerts sev alerts =
     (if sev = ''all'' then alerts
      else filter (\<lambda>alert. toLowerCase (severity alert) = sev) alerts)"

definition alerts_text :: "js_runtime \<Rightarrow> string \<Rightarrow> string \<Rightarrow> AlertCollection \<Rightarrow> string" where
  "alerts_text rt location sev alertsData =
     (let alerts = (case alert_features alertsData of None \<Rightarrow> [] | Some fs \<Rightarrow> fs);
          filteredAlerts = filterAlerts sev alerts
      in if length filteredAlerts = 0
         then ''# Weather Alerts'' @ nl @ nl @ ''No active weather alerts found for '' @
              location @ ''.''
         else foldl (\<lambda>markdown alert. markdown @ alert_markdown rt alert)
                (''# Weather Alerts for '' @ location @ nl @ nl @
                 ''Found '' @ show_nat (length filteredAlerts) @ '' active alert(s)'' @ nl @ nl)
                filteredAlerts)"

definition get_weather_alerts_try ::
  "js_runtime \<Rightarrow> weather_upstream \<Rightarrow> string \<Rightarrow> string \<Rightarrow> (string, content list) io" where
  "get_weather_alerts_try rt up location sev =
     bind (weatherApiRequest (fetch_alerts up) (alertsEndpoint rt location)) (\<lambda>alertsData.
     return [Text (alerts_text rt location sev alertsData)])"

definition get_weather_alerts ::
  "js_runtime \<Rightarrow> weather_upstream \<Rightarrow> string \<Rightarrow> string \<Rightarrow> (string, content list) io" where
  "get_weather_alerts rt up location sev =
     handler_catch (get_weather_alerts_try rt up location sev)"

subsection \<open>find\_weather\_stations\<close>

definition station_head :: "js_runtime \<Rightarrow> Station \<Rightarrow> string" where
  "station_head rt props =
     ''## '' @ station_name props @ nl @ nl @
     ''**Station ID:** '' @ stationIdentifier props @ nl @
     (case elevation props of
        None \<Rightarrow> []
      | Some v \<Rightarrow> if v \<noteq> 0
          then ''**Elevation:** '' @ toFixed rt (v * (328084 / 100000)) 0 @ '' ft'' @ nl else []) @
     (case distance props of
        None \<Rightarrow> []
      | Some v \<Rightarrow> if v \<noteq> 0
          then ''**Distance:** '' @ toFixed rt ((v / 1000) * (621371 / 1000000)) 1 @ '' miles'' @ nl
          else [])"

definition observation_lines :: "js_runtime \<Rightarrow> ObservationResponse \<Rightarrow> string" where
  "observation_lines rt obsData =
     (case obs_properties obsData of
        None \<Rightarrow> []
      | Some obs \<Rightarrow>
          ''**Latest Report:** '' @ toLocaleString rt (timestamp obs) @ nl @
          (case obs_temperature obs of
             None \<Rightarrow> []
           | Some v \<Rightarrow> ''**Temperature:** '' @ toFixed rt ((v * 9) / 5 + 32) 1 @ deg @ ''F'' @ nl))"

definition latest_not_available :: string where
  "latest_not_available = ''**Latest Report:** Not available'' @ nl"

text \<open>
  The inner \<^verbatim>\<open>try\<close>/\<^verbatim>\<open>catch\<close> of the loop body: the latest observation of one station,
  or the placeholder line when that request throws.
\<close>

definition station_report :: "js_runtime \<Rightarrow> weather_upstream \<Rightarrow> Station \<Rightarrow> (string, string) io" where
  "station_report rt up props =
     try_catch
       (bind (weatherApiRequest (fetch_observation up)
                (observationPath (stationIdentifier props)))
          (\<lambda>obsData. return (observation_lines rt obsData)))
       (\<lambda>e. return latest_not_available)"

definition station_section :: "js_runtime \<Rightarrow> weather_upstream \<Rightarrow> Station \<Rightarrow> (string, string) io" where
  "station_section rt up props =
     bind (station_report rt up props) (\<lambda>report.
     return (station_head rt props @ report @ nl @ ''---'' @ nl @ nl))"

text \<open>The \<^verbatim>\<open>for (const station of stations)\<close> loop, which appends to \<^verbatim>\<open>markdown\<close>.\<close>

fun stations_loop ::
  "js_runtime \<Rightarrow> weather_upstream \<Rightarrow> Station list \<Rightarrow> string \<Rightarrow> (string, string) io" where
  "stations_loop rt up [] markdown = return markdown"
| "stations_loop rt up (station # rest) markdown =
     bind (station_section rt up station) (\<lambda>section.
     stations_loop rt up rest (markdown @ section))"

definition stations_header :: "string \<Rightarrow> Station list \<Rightarrow> string" where
  "stations_header location stations =
     ''# Weather Stations Near '' @ location @ nl @ nl @
     ''Found '' @ show_nat (length stations) @ '' station(s)'' @ nl @ nl"

definition find_weather_stations_try ::
  "js_runtime \<Rightarrow> weather_upstream \<Rightarrow> string \<Rightarrow> rat \<Rightarrow> (string, content list) io" where
  "find_weather_stations_try rt up location limit =
     bind (lift (parseLocation location)) (\<lambda>c.
     bind (getPointMetadata rt (fetch_point up) (latitude c) (longitude c)) (\<lambda>pointData.
     bind (weatherApiRequest (fetch_stations up)
             (gridpointPath rt pointData @ ''/stations?limit='' @ number_to_string rt limit))
       (\<lambda>stationsData.
     let stations = (case station_features stationsData of None \<Rightarrow> [] | Some fs \<Rightarrow> fs) in
     if length stations = 0
     then return [Text (''# Weather Stations'' @ nl @ nl @ ''No weather stations found near '' @
                        location @ ''.'')]
     else bind (stations_loop rt up stations (stations_header location stations))
            (\<lambda>markdown. return [Text markdown]))))"

definition find_weather_stations ::
  "js_runtime \<Rightarrow> weather_upstream \<Rightarrow> string \<Rightarrow> rat \<Rightarrow> (string, content list) io" where
  "find_weather_stations rt up location limit =
     handler_catch (find_weather_stations_try rt up location limit)"

subsection \<open>get\_current\_weather\<close>

definition msg_no_stations :: string where
  "msg_no_stations = ''No weather stations found for this location''"

text \<open>
  Reading \<^verbatim>\<open>obs.timestamp\<close> when the observation has no \<^verbatim>\<open>properties\<close> is a
  \<^verbatim>\<open>TypeError\<close>; the wording is the engine's (V8 here).
\<close>

definition msg_undefined_timestamp :: string where
  "msg_undefined_timestamp =
     ''Cannot read properties of undefined (reading '' @ [CHR 0x27] @ ''timestamp'' @ [CHR 0x27] @ '')''"

definition fahrenheit :: "rat \<Rightarrow> rat" where
  "fahrenheit v = (v * 9) / 5 + 32"

definition current_markdown :: "js_runtime \<Rightarrow> coords \<Rightarrow> string \<Rightarrow> Observation \<Rightarrow> string" where
  "current_markdown rt c nearestStation obs =
     ''# Current Weather'' @ nl @ nl @
     ''**Location:** '' @ number_to_string rt (latitude c) @ '', '' @
       number_to_string rt (longitude c) @ nl @
     ''**Station:** '' @ nearestStation @ nl @
     ''**Observed:** '' @ toLocaleString rt (timestamp obs) @ nl @ nl @
     (case obs_temperature obs of
        None \<Rightarrow> []
      | Some v \<Rightarrow> ''**Temperature:** '' @ toFixed rt (fahrenheit v) 1 @ deg @ ''F ('' @
                  toFixed rt v 1 @ deg @ ''C)'' @ nl) @
     (case heatIndex obs of
        Some v \<Rightarrow> ''**Feels Like:** '' @ toFixed rt (fahrenheit v) 1 @ deg @ ''F (heat index)'' @ nl
      | None \<Rightarrow>
          (case windChill obs of
             Some v \<Rightarrow> ''**Feels Like:** '' @ toFixed rt (fahrenheit v) 1 @ deg @
                       ''F (wind chill)'' @ nl
           | None \<Rightarrow> [])) @
     (case textDescription obs of
        None \<Rightarrow> []
      | Some t \<Rightarrow> if t \<noteq> [] then ''**Conditions:** '' @ t @ nl else []) @
     (case relativeHumidity obs of
        None \<Rightarrow> []
      | Some v \<Rightarrow> ''**Humidity:** '' @ toFixed rt v 0 @ ''%'' @ nl) @
     (case (obs_windSpeed obs, obs_windDirection obs) of
        (Some ws, Some wd) \<Rightarrow>
          ''**Wind:** '' @ toFixed rt (ws * (2237 / 1000)) 0 @ '' mph from '' @
            number_to_string rt wd @ deg @ nl
      | _ \<Rightarrow> []) @
     (case barometricPressure obs of
        None \<Rightarrow> []
      | Some v \<Rightarrow> ''**Pressure:** '' @ toFixed rt (v * (2953 / 10000000)) 2 @ '' inHg'' @ nl) @
     (case visibility obs of
        None \<Rightarrow> []
      | Some v \<Rightarrow> ''**Visibility:** '' @ toFixed rt (v / (160934 / 100)) 1 @ '' miles'' @ nl)"

definition get_current_weather_try ::
  "js_runtime \<Rightarrow> weather_upstream \<Rightarrow> string \<Rightarrow> (string, content list) io" where
  "get_current_weather_try rt up location =
     bind (lift (parseLocation location)) (\<lambda>c.
     bind (getPointMetadata rt (fetch_point up) (latitude c) (longitude c)) (\<lambda>pointData.
     bind (weatherApiRequest (fetch_stations up) (gridpointPath rt pointData @ ''/stations''))
       (\<lambda>stationsData.
     case station_features stationsData of
       None \<Rightarrow> throw (JsError msg_no_stations)
     | Some [] \<Rightarrow> throw (JsError msg_no_stations)
     | Some (first # others) \<Rightarrow>
         (let nearestStation = stationIdentifier first in
          bind (weatherApiRequest (fetch_observation up) (observationPath nearestStation))
            (\<lambda>observationData.
          case obs_properties observationData of
            None \<Rightarrow> throw (JsError msg_undefined_timestamp)
          | Some obs \<Rightarrow> return [Text (current_markdown rt c nearestStation obs)])))))"

definition get_current_weather ::
  "js_runtime \<Rightarrow> weather_upstream \<Rightarrow> string \<Rightarrow> (string, content list) io" where
  "get_current_weather rt up location =
     handler_catch (get_current_weather_try rt up location)"

section \<open>JSON values\<close>

text \<open>
  The arguments of a tool call and the data the adapters serialise. An object is the list
  of its members (the keys of one object are distinct; a lookup takes the first).
  \<^verbatim>\<open>JSON.stringify\<close>, compact and indented, and the encoding of a URL query value are
  parameters of the model.
\<close>

datatype jvalue = JNull | JBool bool | JNum rat | JStr string | JArr "jvalue list"
  | JObj "(string \<times> jvalue) list"

record json_runtime =
  json_stringify :: "jvalue \<Rightarrow> string"
  json_stringify_indent2 :: "jvalue \<Rightarrow> string"
  url_encode :: "string \<Rightarrow> string"

section \<open>The maps adapter\<close>

record LatLng =
  lat :: rat
  lng :: rat

record GeocodeResult =
  place_id :: string
  formatted_address :: string
  geometry_location :: LatLng

record GeocodeResponse =
  geocode_status :: string
  geocode_error_message :: "string option"
  geocode_results :: "GeocodeResult list"

record TextValue =
  tv_text :: string
  tv_value :: rat

record Element =
  element_status :: string
  element_duration :: TextValue
  element_distance :: TextValue

record DistanceMatrixResponse =
  matrix_status :: string
  matrix_error_message :: "string option"
  origin_addresses :: "string list"
  destination_addresses :: "string list"
  rows :: "Element list list"

record Step =
  html_instructions :: string
  step_distance :: TextValue
  step_duration :: TextValue
  travel_mode :: string

record Leg =
  leg_distance :: TextValue
  leg_duration :: TextValue
  steps :: "Step list"

record Route =
  summary :: string
  legs :: "Leg list"

record DirectionsResponse =
  directions_status :: string
  directions_error_message :: "string option"
  routes :: "Route list"

record maps_upstream =
  fetch_geocode :: "GeocodeResponse fetch"
  fetch_distancematrix :: "DistanceMatrixResponse fetch"
  fetch_directions :: "DirectionsResponse fetch"

text \<open>
  \<^verbatim>\<open>await fetch(url.toString())\<close> and \<^verbatim>\<open>await response.json()\<close>: the maps handlers do
  not look at the HTTP status, and nothing catches a rejection.
\<close>

definition maps_fetch :: "'b fetch \<Rightarrow> string \<Rightarrow> (string, 'b) io" where
  "maps_fetch fetch url =
     (\<lambda>calls. case fetch calls url of
        Rejected m \<Rightarrow> (Inl (JsError m), calls @ [url])
      | Response status statusText body \<Rightarrow>
          (case body of
             Inl m \<Rightarrow> (Inl (JsError m), calls @ [url])
           | Inr b \<Rightarrow> (Inr b, calls @ [url])))"

text \<open>The URL with its query, as \<^verbatim>\<open>url.searchParams.append\<close> builds it.\<close>

fun query_string :: "json_runtime \<Rightarrow> (string \<times> string) list \<Rightarrow> string" where
  "query_string rt [] = []"
| "query_string rt [(k, v)] = k @ ''='' @ url_encode rt v"
| "query_string rt ((k, v) # remaining) = k @ ''='' @ url_encode rt v @ ''&'' @ query_string rt remaining"

definition maps_url :: "json_runtime \<Rightarrow> string \<Rightarrow> (string \<times> string) list \<Rightarrow> string" where
  "maps_url rt api params =
     ''https://maps.googleapis.com/maps/api/'' @ api @ ''/json?'' @ query_string rt params"

text \<open>\<^verbatim>\<open>data.error_message || data.status\<close>\<close>

definition message_or_status :: "string option \<Rightarrow> string \<Rightarrow> string" where
  "message_or_status m st = (case m of None \<Rightarrow> st | Some t \<Rightarrow> if t \<noteq> [] then t else st)"

text \<open>The \<^verbatim>\<open>TypeError\<close> of reading a property of \<^verbatim>\<open>xs[0]\<close> on an empty array (V8's wording).\<close>

definition msg_undefined :: "string \<Rightarrow> string" where
  "msg_undefined property =
     ''Cannot read properties of undefined (reading '' @ [CHR 0x27] @ property @ [CHR 0x27] @ '')''"


definition text_value_json :: "TextValue \<Rightarrow> jvalue" where
  "text_value_json t = JObj [(''text'', JStr (tv_text t)), (''value'', JNum (tv_value t))]"



text \<open>\<^verbatim>\<open>xs.join("|")\<close>\<close>

fun join_bar :: "string list \<Rightarrow> string" where
  "join_bar [] = []"
| "join_bar [x] = x"
| "join_bar (x # remaining) = x @ ''|'' @ join_bar remaining"

text \<open>The default of the parameter \<^verbatim>\<open>mode = "driving"\<close>, taken when it is undefined.\<close>

definition mode_or_driving :: "string option \<Rightarrow> string" where
  "mode_or_driving mode = (case mode of None \<Rightarrow> ''driving'' | Some m \<Rightarrow> m)"

definition element_json :: "Element \<Rightarrow> jvalue" where
  "element_json e =
     JObj [(''status'', JStr (element_status e)),
           (''duration'', text_value_json (element_duration e)),
           (''distance'', text_value_json (element_distance e))]"

definition handleDistanceMatrix ::
  "json_runtime \<Rightarrow> string \<Rightarrow> maps_upstream \<Rightarrow> string list \<Rightarrow> string list \<Rightarrow> string option \<Rightarrow>
     (string, jvalue) io" where
  "handleDistanceMatrix rt api_key up origins destinations mode =
     bind (maps_fetch (fetch_distancematrix up)
             (maps_url rt ''distancematrix''
                [(''origins'', join_bar origins), (''destinations'', join_bar destinations),
                 (''mode'', mode_or_driving mode), (''key'', api_key)])) (\<lambda>data.
     if matrix_status data \<noteq> ''OK''
     then throw (JsError (''Distance matrix request failed: '' @
                   message_or_status (matrix_error_message data) (matrix_status data)))
     else return (JObj [(''origin_addresses'', JArr (map JStr (origin_addresses data))),
                        (''destination_addresses'', JArr (map JStr (destination_addresses data))),
                        (''results'', JArr (map (\<lambda>row.
                            JObj [(''elements'', JArr (map element_json row))]) (rows data)))]))"

definition maps_distance_matrix ::
  "json_runtime \<Rightarrow> string \<Rightarrow> maps_upstream \<Rightarrow> string list \<Rightarrow> string list \<Rightarrow> string option \<Rightarrow>
     (string, content list) io" where
  "maps_distance_matrix rt api_key up origins destinations mode =
     bind (handleDistanceMatrix rt api_key up origins destinations mode) (\<lambda>result.
     return [Text (json_stringify_indent2 rt result)])"

definition step_json :: "Step \<Rightarrow> jvalue" where
  "step_json st =
     JObj [(''instructions'', JStr (html_instructions st)),
           (''distance'', text_value_json (step_distance st)),
           (''duration'', text_value_json (step_duration st)),
           (''travel_mode'', JStr (travel_mode st))]"

text \<open>\<^verbatim>\<open>data.routes.map(...)\<close>, which reads \<^verbatim>\<open>route.legs[0]\<close> of every route.\<close>

fun routes_json :: "Route list \<Rightarrow> thrown + jvalue list" where
  "routes_json [] = Inr []"
| "routes_json (route # remaining) =
     (case legs route of
        [] \<Rightarrow> Inl (JsError (msg_undefined ''distance''))
      | leg # others \<Rightarrow>
          (case routes_json remaining of
             Inl e \<Rightarrow> Inl e
           | Inr js \<Rightarrow>
               Inr (JObj [(''summary'', JStr (summary route)),
                          (''distance'', text_value_json (leg_distance leg)),
                          (''duration'', text_value_json (leg_duration leg)),
                          (''steps'', JArr (map step_json (steps leg)))] # js)))"

definition handleDirections ::
  "json_runtime \<Rightarrow> string \<Rightarrow> maps_upstream \<Rightarrow> string \<Rightarrow> string \<Rightarrow> string option \<Rightarrow>
     (string, jvalue) io" where
  "handleDirections rt api_key up origin destination mode =
     bind (maps_fetch (fetch_directions up)
             (maps_url rt ''directions''
                [(''origin'', origin), (''destination'', destination),
                 (''mode'', mode_or_driving mode), (''key'', api_key)])) (\<lambda>data.
     if directions_status data \<noteq> ''OK''
     then throw (JsError (''Directions request failed: '' @
                   message_or_status (directions_error_message data) (directions_status data)))
     else bind (lift (routes_json (routes data))) (\<lambda>js.
          return (JObj [(''routes'', JArr js)])))"

definition maps_directions ::
  "json_runtime \<Rightarrow> string \<Rightarrow> maps_upstream \<Rightarrow> string \<Rightarrow> string \<Rightarrow> string option \<Rightarrow>
     (string, content list) io" where
  "maps_directions rt api_key up origin destination mode =
     bind (handleDirections rt api_key up origin destination mode) (\<lambda>result.
     return [Text (json_stringify_indent2 rt result)])"

section \<open>The GitHub adapter\<close>

text \<open>
  The Octokit client is the upstream: a call either resolves to a response, whose
  \<^verbatim>\<open>data\<close> is JSON, or rejects with an \<^verbatim>\<open>Error\<close> (\<open>Inl\<close> its message). The log records
  the method and its arguments.
\<close>

datatype octokit_call = Search_repos string rat rat

record octokit =
  search_repos :: "octokit_call list \<Rightarrow> string \<Rightarrow> rat \<Rightarrow> rat \<Rightarrow> string + jvalue"

definition octokit_search_repos ::
  "octokit \<Rightarrow> string \<Rightarrow> rat \<Rightarrow> rat \<Rightarrow> (octokit_call, jvalue) io" where
  "octokit_search_repos ok q per_page page =
     (\<lambda>calls. case search_repos ok calls q per_page page of
        Inl m \<Rightarrow> (Inl (JsError m), calls @ [Search_repos q per_page page])
      | Inr d \<Rightarrow> (Inr d, calls @ [Search_repos q per_page page]))"

text \<open>
  \<^verbatim>\<open>catch (e: any) { ... `Error: ${e.message}` }\<close>: a thrown value that is no Error and
  has no message prints as undefined.
\<close>

definition github_error_text :: "thrown \<Rightarrow> string" where
  "github_error_text e = ''Error: '' @ (case e of JsError m \<Rightarrow> m | NonError \<Rightarrow> ''undefined'')"

definition search_repositories_try ::
  "json_runtime \<Rightarrow> octokit \<Rightarrow> string \<Rightarrow> rat \<Rightarrow> rat \<Rightarrow> (octokit_call, content list) io" where
  "search_repositories_try rt ok query per_page page =
     bind (octokit_search_repos ok query per_page page) (\<lambda>d.
     return [Text (json_stringify rt d)])"

definition search_repositories ::
  "json_runtime \<Rightarrow> octokit \<Rightarrow> string \<Rightarrow> rat \<Rightarrow> rat \<Rightarrow> (octokit_call, content list) io" where
  "search_repositories rt ok query per_page page =
     try_catch (search_repositories_try rt ok query per_page page)
       (\<lambda>e. return [Text (github_error_text e)])"

text \<open>The two pull-request stubs: callbacks that take no argument and call nothing.\<close>

definition update_pull_request_branch :: "(octokit_call, content list) io" where
  "update_pull_request_branch = return [Text ''Not implemented yet'']"

definition get_pull_request_comments :: "(octokit_call, content list) io" where
  "get_pull_request_comments = return [Text ''Not implemented yet'']"

section \<open>Tool definitions, validation and the registry\<close>

text \<open>
  Modelled from the spec: the declarative schema of a tool's input (spec 3 and 9). The
  source declares its schemas with the zod library, which is not under src/; the
  variants are those the spec lists, \<open>SOptional\<close> with the default it substitutes, if any.
\<close>

datatype schema = SString | SNumber | SBoolean | SEnum "string list"
  | SObject "(string \<times> schema) list" | SArray schema | SOptional schema "jvalue option"

text \<open>
  Modelled from the spec: a validation failure (spec 4.2 and 7), which names the offending
  parameter (\<open>At\<close>) and the expectation.
\<close>

datatype validation_error = Required | Expected string | NotInEnum "string list"
  | At string validation_error

type_synonym validator = "jvalue option \<Rightarrow> validation_error + jvalue option"

text \<open>
  Modelled from the spec: the parameters of an object, each looked up by its declared
  name and validated; a parameter that is absent after validation stays absent, and a
  member of the raw input that no declared name asks for is never read (spec 4.2,
  "Unrecognized extra parameters: ignored").
\<close>

fun validate_fields ::
  "(string \<times> validator) list \<Rightarrow> (string \<times> jvalue) list \<Rightarrow>
     validation_error + (string \<times> jvalue) list" where
  "validate_fields [] raw = Inr []"
| "validate_fields ((k, v) # decls) raw =
     (case v (map_of raw k) of
        Inl e \<Rightarrow> Inl (At k e)
      | Inr ov \<Rightarrow>
          (case validate_fields decls raw of
             Inl e \<Rightarrow> Inl e
           | Inr rest \<Rightarrow> Inr (case ov of None \<Rightarrow> rest | Some x \<Rightarrow> (k, x) # rest)))"

text \<open>Modelled from the spec: the elements of an array, validated in order.\<close>

fun validate_elements ::
  "validator \<Rightarrow> nat \<Rightarrow> jvalue list \<Rightarrow> validation_error + jvalue list" where
  "validate_elements v i [] = Inr []"
| "validate_elements v i (x # xs) =
     (case v (Some x) of
        Inl e \<Rightarrow> Inl (At (show_nat i) e)
      | Inr ov \<Rightarrow>
          (case validate_elements v (Suc i) xs of
             Inl e \<Rightarrow> Inl e
           | Inr rest \<Rightarrow> Inr ((case ov of None \<Rightarrow> JNull | Some y \<Rightarrow> y) # rest)))"

text \<open>
  Modelled from the spec: the single recursive \<^verbatim>\<open>validate(schema, value)\<close> of spec 9, with
  the rules of spec 4.2 step 1: a missing required parameter, a type mismatch and an enum
  value outside the declared literals fail; an absent optional parameter takes its
  default. The argument is \<open>None\<close> when the parameter is absent.
\<close>

primrec validate :: "schema \<Rightarrow> validator" where
  "validate SString = (\<lambda>ov. case ov of None \<Rightarrow> Inl Required
      | Some (JStr s) \<Rightarrow> Inr (Some (JStr s)) | Some _ \<Rightarrow> Inl (Expected ''string''))"
| "validate SNumber = (\<lambda>ov. case ov of None \<Rightarrow> Inl Required
      | Some (JNum n) \<Rightarrow> Inr (Some (JNum n)) | Some _ \<Rightarrow> Inl (Expected ''number''))"
| "validate SBoolean = (\<lambda>ov. case ov of None \<Rightarrow> Inl Required
      | Some (JBool b) \<Rightarrow> Inr (Some (JBool b)) | Some _ \<Rightarrow> Inl (Expected ''boolean''))"
| "validate (SEnum literals) = (\<lambda>ov. case ov of None \<Rightarrow> Inl Required
      | Some (JStr s) \<Rightarrow>
          if s \<in> set literals then Inr (Some (JStr s)) else Inl (NotInEnum literals)
      | Some _ \<Rightarrow> Inl (NotInEnum literals))"
| "validate (SObject decls) = (\<lambda>ov. case ov of None \<Rightarrow> Inl Required
      | Some (JObj raw) \<Rightarrow>
          (case validate_fields (map (map_prod id validate) decls) raw of
             Inl e \<Rightarrow> Inl e | Inr args \<Rightarrow> Inr (Some (JObj args)))
      | Some _ \<Rightarrow> Inl (Expected ''object''))"
| "validate (SArray element) = (\<lambda>ov. case ov of None \<Rightarrow> Inl Required
      | Some (JArr xs) \<Rightarrow>
          (case validate_elements (validate element) 0 xs of
             Inl e \<Rightarrow> Inl e | Inr ys \<Rightarrow> Inr (Some (JArr ys)))
      | Some _ \<Rightarrow> Inl (Expected ''array''))"
| "validate (SOptional inner dflt) = (\<lambda>ov. case ov of None \<Rightarrow> Inr dflt
      | Some x \<Rightarrow> validate inner (Some x))"

text \<open>Modelled from the spec: the optional parameters (spec 3, "optionality").\<close>

fun is_optional :: "schema \<Rightarrow> bool" where
  "is_optional (SOptional inner dflt) = True"
| "is_optional s = False"

text \<open>Modelled from the spec: the raw arguments of a call against a tool's input schema.\<close>

definition validate_input ::
  "(string \<times> schema) list \<Rightarrow> (string \<times> jvalue) list \<Rightarrow>
     validation_error + (string \<times> jvalue) list" where
  "validate_input decls raw = validate_fields (map (map_prod id validate) decls) raw"

text \<open>\<^verbatim>\<open>xs.join(", ")\<close>\<close>

fun join_comma :: "string list \<Rightarrow> string" where
  "join_comma [] = []"
| "join_comma [x] = x"
| "join_comma (x # remaining) = x @ '', '' @ join_comma remaining"

text \<open>
  Modelled from the spec: the message of a validation failure, which "names the offending
  parameter and the expectation" (spec 4.2); the spec fixes no wording.
\<close>

fun validation_message :: "validation_error \<Rightarrow> string" where
  "validation_message Required = ''required''"
| "validation_message (Expected t) = ''expected '' @ t"
| "validation_message (NotInEnum literals) = ''expected one of '' @ join_comma literals"
| "validation_message (At k e) = k @ '': '' @ validation_message e"

text \<open>
  Modelled from the spec: a Tool Definition (spec 3). The handler takes the validated and
  defaulted parameter record.
\<close>

record 'c tool =
  tool_name :: string
  tool_description :: string
  inputSchema :: "(string \<times> schema) list"
  handler :: "(string \<times> jvalue) list \<Rightarrow> ('c, content list) io"

text \<open>
  Modelled from the spec: steps 1 and 2 of the Invocation Envelope (spec 4.2), which the
  MCP SDK and zod run around a registered callback (neither is under src/). A validation
  failure is the failure shape, and the handler is not run; otherwise the handler runs on
  the validated record. What the handler throws stays thrown: the catch blocks of the
  source are in its handlers.
\<close>

definition invoke_tool :: "'c tool \<Rightarrow> (string \<times> jvalue) list \<Rightarrow> ('c, content list) io" where
  "invoke_tool t raw =
     (case validate_input (inputSchema t) raw of
        Inl err \<Rightarrow> return [Text (''Error: '' @ validation_message err)]
      | Inr args \<Rightarrow> handler t args)"



text \<open>
  Modelled from the spec: the Tool Registry (spec 4.1), an ordered mapping from names to
  Tool Definitions. \<^verbatim>\<open>McpServer.tool\<close> of the SDK, which the source calls to register,
  is not under src/.
\<close>

datatype registry_error = DuplicateToolError string | UnknownToolError string

type_synonym 'c registry = "'c tool list"

definition registered :: "'c registry \<Rightarrow> string \<Rightarrow> bool" where
  "registered reg n = (n \<in> set (map tool_name reg))"

text \<open>
  Modelled from the spec: \<^verbatim>\<open>register\<close> fails with \<^verbatim>\<open>DuplicateToolError\<close> when the name
  exists, and has "no side effects beyond mutating the registry's internal mapping": it
  returns the outcome and the registry after the call.
\<close>

definition register :: "'c tool \<Rightarrow> 'c registry \<Rightarrow> (registry_error + unit) \<times> 'c registry" where
  "register t reg =
     (if registered reg (tool_name t) then (Inl (DuplicateToolError (tool_name t)), reg)
      else (Inr (), reg @ [t]))"

text \<open>Modelled from the spec: the Tool Definitions registered under a name.\<close>

definition definitions_of :: "'c registry \<Rightarrow> string \<Rightarrow> 'c tool list" where
  "definitions_of reg n = filter (\<lambda>t. tool_name t = n) reg"

text \<open>
  Modelled from the spec: the registry after a sequence of \<^verbatim>\<open>register\<close> calls, successful
  or not, in order. Every state a registry can reach is \<open>register_each ts []\<close> for some
  sequence \<open>ts\<close>.
\<close>

fun register_each :: "'c tool list \<Rightarrow> 'c registry \<Rightarrow> 'c registry" where
  "register_each [] reg = reg"
| "register_each (t # ts) reg = register_each ts (snd (register t reg))"

section \<open>The tools the source registers\<close>

text \<open>
  The callbacks destructure the validated record. After validation a declared parameter
  is present with its declared type, unless it is optional without a default (then it
  may be undefined, \<open>None\<close>); the other case of each reader below is never reached from
  a validated record.
\<close>

definition str_arg :: "(string \<times> jvalue) list \<Rightarrow> string \<Rightarrow> string" where
  "str_arg args k = (case map_of args k of Some (JStr s) \<Rightarrow> s | _ \<Rightarrow> [])"

definition num_arg :: "(string \<times> jvalue) list \<Rightarrow> string \<Rightarrow> rat" where
  "num_arg args k = (case map_of args k of Some (JNum n) \<Rightarrow> n | _ \<Rightarrow> 0)"

definition opt_str_arg :: "(string \<times> jvalue) list \<Rightarrow> string \<Rightarrow> string option" where
  "opt_str_arg args k = (case map_of args k of Some (JStr s) \<Rightarrow> Some s | _ \<Rightarrow> None)"

definition str_of :: "jvalue \<Rightarrow> string" where
  "str_of j = (case j of JStr s \<Rightarrow> s | _ \<Rightarrow> [])"

definition str_list_arg :: "(string \<times> jvalue) list \<Rightarrow> string \<Rightarrow> string list" where
  "str_list_arg args k = (case map_of args k of Some (JArr xs) \<Rightarrow> map str_of xs | _ \<Rightarrow> [])"

definition location_schema :: "string \<times> schema" where
  "location_schema = (''location'', SString)"

definition get_current_weather_tool :: "js_runtime \<Rightarrow> weather_upstream \<Rightarrow> string tool" where
  "get_current_weather_tool rt up =
     \<lparr>tool_name = ''get_current_weather'',
      tool_description = ''Get current weather conditions for a location in the United States. Perfect for 'What's the weather like in [US location]?' questions. Covers all US states, territories, and coastal waters.'',
      inputSchema = [location_schema],
      handler = (\<lambda>args. get_current_weather rt up (str_arg args ''location''))\<rparr>"

definition get_weather_forecast_tool :: "js_runtime \<Rightarrow> weather_upstream \<Rightarrow> string tool" where
  "get_weather_forecast_tool rt up =
     \<lparr>tool_name = ''get_weather_forecast'',
      tool_description = ''Get multi-day weather forecast for a location in the United States. Perfect for 'What's the forecast for [US location]?' questions. Provides detailed day/night forecasts for up to 7 days.'',
      inputSchema = [location_schema, (''days'', SOptional SNumber (Some (JNum 7)))],
      handler = (\<lambda>args. get_weather_forecast rt up (str_arg args ''location'')
                           (num_arg args ''days''))\<rparr>"

definition get_hourly_forecast_tool :: "js_runtime \<Rightarrow> weather_upstream \<Rightarrow> string tool" where
  "get_hourly_forecast_tool rt up =
     \<lparr>tool_name = ''get_hourly_forecast'',
      tool_description = ''Get hour-by-hour weather forecast for a location in the United States. Perfect for 'What's the hourly forecast?' or 'Will it rain this afternoon in [US location]?' questions. Provides detailed hourly conditions for up to 48 hours.'',
      inputSchema = [location_schema, (''hours'', SOptional SNumber (Some (JNum 24)))],
      handler = (\<lambda>args. get_hourly_forecast rt up (str_arg args ''location'')
                           (num_arg args ''hours''))\<rparr>"

definition get_weather_alerts_tool :: "js_runtime \<Rightarrow> weather_upstream \<Rightarrow> string tool" where
  "get_weather_alerts_tool rt up =
     \<lparr>tool_name = ''get_weather_alerts'',
      tool_description = ''Get active weather alerts, warnings, watches, and advisories for locations in the United States. Perfect for 'Are there any weather alerts in [US location]?' questions. Covers severe weather, winter storms, heat warnings, flood alerts, and more.'',
      inputSchema = [location_schema,
                     (''severity'', SOptional (SEnum [''all'', ''extreme'', ''severe'', ''moderate'',
                                                       ''minor'']) (Some (JStr ''all'')))],
      handler = (\<lambda>args. get_weather_alerts rt up (str_arg args ''location'')
                           (str_arg args ''severity''))\<rparr>"

definition find_weather_stations_tool :: "js_runtime \<Rightarrow> weather_upstream \<Rightarrow> string tool" where
  "find_weather_stations_tool rt up =
     \<lparr>tool_name = ''find_weather_stations'',
      tool_description = ''Find weather observation stations near a location in the United States. Useful for getting station-specific data, finding data sources, or understanding which stations provide weather data for an area. Includes ASOS, AWOS, and other automated weather stations.'',
      inputSchema = [location_schema, (''limit'', SOptional SNumber (Some (JNum 10)))],
      handler = (\<lambda>args. find_weather_stations rt up (str_arg args ''location'')
                           (num_arg args ''limit''))\<rparr>"

text \<open>The tools of the weather server, in the order of its \<^verbatim>\<open>server.tool\<close> calls.\<close>

definition weather_tools :: "js_runtime \<Rightarrow> weather_upstream \<Rightarrow> string tool list" where
  "weather_tools rt up =
     [get_current_weather_tool rt up, get_weather_forecast_tool rt up,
      get_hourly_forecast_tool rt up, get_weather_alerts_tool rt up,
      find_weather_stations_tool rt up]"

definition mode_schema :: "string \<times> schema" where
  "mode_schema =
     (''mode'', SOptional (SEnum [''driving'', ''walking'', ''bicycling'', ''transit'']) None)"


definition maps_distance_matrix_tool ::
  "json_runtime \<Rightarrow> string \<Rightarrow> maps_upstream \<Rightarrow> string tool" where
  "maps_distance_matrix_tool rt api_key up =
     \<lparr>tool_name = ''maps_distance_matrix'',
      tool_description =
        ''Calculate travel distance and time for multiple origins and destinations'',
      inputSchema = [(''origins'', SArray SString), (''destinations'', SArray SString),
                     mode_schema],
      handler = (\<lambda>args. maps_distance_matrix rt api_key up (str_list_arg args ''origins'')
                           (str_list_arg args ''destinations'') (opt_str_arg args ''mode''))\<rparr>"

definition maps_directions_tool :: "json_runtime \<Rightarrow> string \<Rightarrow> maps_upstream \<Rightarrow> string tool" where
  "maps_directions_tool rt api_key up =
     \<lparr>tool_name = ''maps_directions'',
      tool_description = ''Get directions between two points'',
      inputSchema = [(''origin'', SString), (''destination'', SString), mode_schema],
      handler = (\<lambda>args. maps_directions rt api_key up (str_arg args ''origin'')
                           (str_arg args ''destination'') (opt_str_arg args ''mode''))\<rparr>"

definition search_repositories_tool :: "json_runtime \<Rightarrow> octokit \<Rightarrow> octokit_call tool" where
  "search_repositories_tool rt ok =
     \<lparr>tool_name = ''search_repositories'',
      tool_description = ''Search for GitHub repositories'',
      inputSchema = [(''query'', SString), (''per_page'', SOptional SNumber (Some (JNum 30))),
                     (''page'', SOptional SNumber (Some (JNum 1)))],
      handler = (\<lambda>args. search_repositories rt ok (str_arg args ''query'')
                           (num_arg args ''per_page'') (num_arg args ''page''))\<rparr>"

definition update_pull_request_branch_tool :: "octokit_call tool" where
  "update_pull_request_branch_tool =
     \<lparr>tool_name = ''update_pull_request_branch'',
      tool_description = ''Update the branch of a pull request with the latest changes from the base branch (not implemented)'',
      inputSchema = [(''owner'', SString), (''repo'', SString), (''pullNumber'', SNumber),
                     (''expectedHeadSha'', SOptional SString None)],
      handler = (\<lambda>args. update_pull_request_branch)\<rparr>"

definition get_pull_request_comments_tool :: "octokit_call tool" where
  "get_pull_request_comments_tool =
     \<lparr>tool_name = ''get_pull_request_comments'',
      tool_description = ''Get comments for a specific pull request (not implemented)'',
      inputSchema = [(''owner'', SString), (''repo'', SString), (''pullNumber'', SNumber)],
      handler = (\<lambda>args. get_pull_request_comments)\<rparr>"

section \<open>Stub upstreams\<close>

text \<open>Deterministic stubs, used to run the handlers on concrete inputs.\<close>

definition stub_status :: "nat \<Rightarrow> string \<Rightarrow> unit fetch" where
  "stub_status status statusText = (\<lambda>calls url. Response status statusText (Inr ()))"

definition stub_rejected :: "string \<Rightarrow> unit fetch" where
  "stub_rejected m = (\<lambda>calls url. Rejected m)"

definition stub_runtime :: js_runtime where
  "stub_runtime =
     \<lparr>frac_to_string = (\<lambda>x. if x = 407128 / 10000 then ''40.7128''
                             else if x = - (740060 / 10000) then ''-74.006'' else ''0.5''),
      toFixed = (\<lambda>x digits. ''0''),
      toLocaleString = (\<lambda>t. t),
      toLocaleTimeString = (\<lambda>t. t),
      toLocaleDateString = (\<lambda>t. t)\<rparr>"

definition stub_period :: "string \<Rightarrow> Period" where
  "stub_period n =
     \<lparr>name = n, temperature = 41, temperatureUnit = ''F'', shortForecast = ''Clear'',
      detailedForecast = ''Clear skies.'', windSpeed = None, windDirection = None,
      probabilityOfPrecipitation = None\<rparr>"

definition stub_station :: "string \<Rightarrow> Station" where
  "stub_station ident =
     \<lparr>stationIdentifier = ident, station_name = ident, elevation = None, distance = None\<rparr>"

definition stub_alert :: Alert where
  "stub_alert =
     \<lparr>event = ''Flood Watch'', severity = ''Severe'', urgency = ''Expected'',
      areaDesc = ''Suffolk'', effective = None, expires = None,
      description = ''Heavy rain.'', instruction = None\<rparr>"

definition not_found :: "'b fetch_outcome" where
  "not_found = Response 404 ''Not Found'' (Inl ''Unexpected end of JSON input'')"

text \<open>
  A weather upstream that knows one point, its grid, two stations (the second without an
  observation: the request fails with status 500) and one nationwide alert.
\<close>

definition stub_weather :: weather_upstream where
  "stub_weather =
     \<lparr>fetch_point = (\<lambda>calls url.
        if url = ''https://api.weather.gov/points/40.7128,-74.006''
        then Response 200 ''OK'' (Inr \<lparr>gridId = ''OKX'', gridX = 32, gridY = 34\<rparr>)
        else not_found),
      fetch_stations = (\<lambda>calls url.
        if url = ''https://api.weather.gov/gridpoints/OKX/32,34/stations?limit=10''
        then Response 200 ''OK''
               (Inr \<lparr>station_features = Some [stub_station ''KNYC'', stub_station ''KLGA'']\<rparr>)
        else not_found),
      fetch_observation = (\<lambda>calls url.
        if url = ''https://api.weather.gov/stations/KNYC/observations/latest''
        then Response 200 ''OK'' (Inr \<lparr>obs_properties = None\<rparr>)
        else Response 500 ''Internal Server Error'' (Inl ''Unexpected end of JSON input'')),
      fetch_forecast = (\<lambda>calls url.
        if url = ''https://api.weather.gov/gridpoints/OKX/32,34/forecast''
        then Response 200 ''OK''
               (Inr \<lparr>updateTime = ''2024-01-01T00:00:00Z'',
                     periods = [stub_period ''Tonight'', stub_period ''Monday'']\<rparr>)
        else not_found),
      fetch_hourly = (\<lambda>calls url. not_found),
      fetch_alerts = (\<lambda>calls url.
        if url = ''https://api.weather.gov/alerts/active''
        then Response 200 ''OK'' (Inr \<lparr>alert_features = Some [stub_alert]\<rparr>)
        else not_found)\<rparr>"

definition stub_json_runtime :: json_runtime where
  "stub_json_runtime =
     \<lparr>json_stringify = (\<lambda>j. ''{}''), json_stringify_indent2 = (\<lambda>j. ''{}''),
      url_encode = (\<lambda>v. v)\<rparr>"

text \<open>
  A maps upstream that finds nothing, and an Octokit client that may only search for "mcp".
\<close>

definition stub_maps :: maps_upstream where
  "stub_maps =
     \<lparr>fetch_geocode = (\<lambda>calls url. Response 200 ''OK''
        (Inr \<lparr>geocode_status = ''ZERO_RESULTS'', geocode_error_message = None,
              geocode_results = []\<rparr>)),
      fetch_distancematrix = (\<lambda>calls url. Rejected ''fetch failed''),
      fetch_directions = (\<lambda>calls url. Rejected ''fetch failed'')\<rparr>"

definition stub_octokit :: octokit where
  "stub_octokit =
     \<lparr>search_repos = (\<lambda>calls q per_page page.
        if q = ''mcp'' then Inr (JObj [(''total_count'', JNum 0)]) else Inl ''Bad credentials'')\<rparr>"

text \<open>A handler that only reports that it ran.\<close>

definition stub_handler :: "(string \<times> jvalue) list \<Rightarrow> (string, content list) io" where
  "stub_handler args = return [Text ''handler ran'']"

section \<open>Status mapping of the upstream client\<close>

lemma includes_not_found: "\<not> str_includes msg_not_found ''fetch''"
  by (simp add: msg_not_found_def)

lemma includes_unavailable: "\<not> str_includes msg_unavailable ''fetch''"
  by (simp add: msg_unavailable_def)

text \<open>
  C4 (as the code has it). For a response with a non-2xx status, \<^verbatim>\<open>weatherApiRequest\<close>
  throws an Error: "Location not found or no data available" for 404, "Weather service
  temporarily unavailable" for 500 only, and for every other status the generic
  "Weather API error: <status> <statusText>" (reworded as the connectivity error when that
  text contains "fetch"). A transport failure whose message contains "fetch" is thrown as
  the connectivity error "Unable to connect to weather service...".
\<close>

theorem C4_status_messages:
  "(fetch calls (WEATHER_API_BASE @ ep) = Response 404 st body \<longrightarrow>
      weatherApiRequest fetch ep calls = (Inl (JsError msg_not_found), calls @ [WEATHER_API_BASE @ ep]))
   \<and> (fetch calls (WEATHER_API_BASE @ ep) = Response 500 st body \<longrightarrow>
      weatherApiRequest fetch ep calls = (Inl (JsError msg_unavailable), calls @ [WEATHER_API_BASE @ ep]))
   \<and> (fetch calls (WEATHER_API_BASE @ ep) = Response status st body \<and> \<not> response_ok status
        \<and> status \<noteq> 404 \<and> status \<noteq> 500 \<longrightarrow>
      weatherApiRequest fetch ep calls =
        (Inl (JsError (if str_includes (msg_api_error status st) ''fetch'' then msg_cannot_connect
                       else msg_api_error status st)),
         calls @ [WEATHER_API_BASE @ ep]))
   \<and> (fetch calls (WEATHER_API_BASE @ ep) = Rejected m \<and> str_includes m ''fetch'' \<longrightarrow>
      weatherApiRequest fetch ep calls = (Inl (JsError msg_cannot_connect), calls @ [WEATHER_API_BASE @ ep]))"
  by (simp add: weatherApiRequest_def weatherApiRequest_try_def weatherApiRequest_catch_def
      response_ok_def includes_not_found includes_unavailable)

theorem C4_status_messages_witness:
  "weatherApiRequest (stub_status 404 ''Not Found'') ''/points/0,0'' [] =
     (Inl (JsError ''Location not found or no data available''),
      [''https://api.weather.gov/points/0,0''])
   \<and> weatherApiRequest (stub_status 500 ''Internal Server Error'') ''/points/0,0'' [] =
     (Inl (JsError ''Weather service temporarily unavailable''),
      [''https://api.weather.gov/points/0,0''])
   \<and> weatherApiRequest (stub_status 403 ''Forbidden'') ''/points/0,0'' [] =
     (Inl (JsError ''Weather API error: 403 Forbidden''),
      [''https://api.weather.gov/points/0,0''])
   \<and> weatherApiRequest (stub_rejected ''fetch failed'') ''/points/0,0'' [] =
     (Inl (JsError ''Unable to connect to weather service. Please check your internet connection.''),
      [''https://api.weather.gov/points/0,0''])"
  using C4_status_messages [of "stub_status 404 ''Not Found''" "[]" "''/points/0,0''"
      "''Not Found''" "Inr ()" 404 "''x''"]
    C4_status_messages [of "stub_status 500 ''Internal Server Error''" "[]" "''/points/0,0''"
      "''Internal Server Error''" "Inr ()" 500 "''x''"]
    C4_status_messages [of "stub_status 403 ''Forbidden''" "[]" "''/points/0,0''"
      "''Forbidden''" "Inr ()" 403 "''x''"]
    C4_status_messages [of "stub_rejected ''fetch failed''" "[]" "''/points/0,0''"
      "''x''" "Inr ()" 403 "''fetch failed''"]
  by (simp add: stub_status_def stub_rejected_def WEATHER_API_BASE_def msg_not_found_def
      msg_unavailable_def msg_cannot_connect_def msg_api_error_def response_ok_def
      show_nat.simps digit_char_def)

text \<open>
  C4 (as the spec has it) fails at a 5xx status other than 500: a 502 response gets the
  generic message, not the "service unavailable" one.
\<close>

theorem C4_counterexample_502:
  "weatherApiRequest (stub_status 502 ''Bad Gateway'') ''/alerts/active'' [] =
     (Inl (JsError ''Weather API error: 502 Bad Gateway''),
      [''https://api.weather.gov/alerts/active''])
   \<and> ''Weather API error: 502 Bad Gateway'' \<noteq> msg_unavailable
   \<and> \<not> str_includes ''Weather API error: 502 Bad Gateway'' ''unavailable''"
  by (simp add: weatherApiRequest_def weatherApiRequest_try_def weatherApiRequest_catch_def
      stub_status_def WEATHER_API_BASE_def msg_unavailable_def msg_api_error_def
      response_ok_def show_nat.simps digit_char_def)

section \<open>The location-resolution chain\<close>

lemma parse_nyc: "parseLocation ''40.7128,-74.0060'' = Inr \<lparr>latitude = 407128 / 10000, longitude = - (740060 / 10000)\<rparr>"
  by (simp add: parseLocation_def coordMatch_def match_decimal_def unsigned_part_def is_digit_def
      is_space_def parseFloat_def digits_val_def digit_val_def)

lemma bind_apply: "bind m f calls = (case m calls of (Inl e, calls') \<Rightarrow> (Inl e, calls') | (Inr x, calls') \<Rightarrow> f x calls')"
  by (simp add: bind_def)

lemma starts_with_append: "starts_with (s @ t) s"
  by (induction s) simp_all

lemma str_includes_nil: "str_includes t []"
  by (cases t) simp_all

lemma str_includes_prefix: "str_includes (s @ t) s"
  by (cases s) (simp_all add: starts_with_append str_includes_nil)

lemma str_includes_shift: "str_includes t s \<Longrightarrow> str_includes (a @ t) s"
  by (induction a) simp_all

lemma str_includes_middle: "str_includes (a @ s @ b) s"
  by (simp add: str_includes_shift str_includes_prefix)

lemma show_int_32: "show_int 32 = ''32''"
  by (simp add: show_int_def show_nat.simps digit_char_def)

lemma show_int_34: "show_int 34 = ''34''"
  by (simp add: show_int_def show_nat.simps digit_char_def)

lemma gridpointPath_okx:
  "gridpointPath rt \<lparr>gridId = ''OKX'', gridX = 32, gridY = 34\<rparr> = ''/gridpoints/OKX/32,34''"
  by (simp add: gridpointPath_def number_to_string_def is_integral_def show_int_32 show_int_34)

lemma weatherApiRequest_ok:
  "fetch calls (WEATHER_API_BASE @ ep) = Response status st (Inr b) \<Longrightarrow> response_ok status \<Longrightarrow>
   weatherApiRequest fetch ep calls = (Inr b, calls @ [WEATHER_API_BASE @ ep])"
  by (simp add: weatherApiRequest_def weatherApiRequest_try_def)

lemma period_markdown_includes_name: "str_includes (a @ period_markdown rt p @ b) (name p)"
proof -
  obtain r where "period_markdown rt p = ''## '' @ name p @ r"
    by (simp add: period_markdown_def)
  then have "a @ period_markdown rt p @ b = (a @ ''## '') @ name p @ (r @ b)"
    by simp
  then show ?thesis
    using str_includes_middle by metis
qed

lemma forecast_two_periods:
  "forecast_markdown rt c 1 \<lparr>updateTime = t, periods = [p1, p2]\<rparr> =
     forecast_header rt c 1 \<lparr>updateTime = t, periods = [p1, p2]\<rparr> @
     period_markdown rt p1 @ period_markdown rt p2"
  by (simp add: forecast_markdown_def slice0_def trunc_def)

text \<open>
  C3. The forecast tool on \<open>location = "40.7128,-74.0060"\<close>, \<open>days = 1\<close>, against an upstream
  that answers the point request for these coordinates with the grid OKX 32,34 and the
  forecast request for that grid with two periods: it issues exactly two upstream calls,
  the point request and then the forecast request, and its text contains the names of
  both periods.
\<close>

theorem C3_forecast_chain:
  assumes pt: "fetch_point up calls
                 (WEATHER_API_BASE @ pointsPath rt (407128 / 10000) (- (740060 / 10000))) =
               Response s1 st1 (Inr \<lparr>gridId = ''OKX'', gridX = 32, gridY = 34\<rparr>)"
    and ok1: "response_ok s1"
    and fc: "fetch_forecast up
               (calls @ [WEATHER_API_BASE @ pointsPath rt (407128 / 10000) (- (740060 / 10000))])
               (WEATHER_API_BASE @ ''/gridpoints/OKX/32,34/forecast'') =
             Response s2 st2 (Inr \<lparr>updateTime = t, periods = [p1, p2]\<rparr>)"
    and ok2: "response_ok s2"
  shows "get_weather_forecast rt up ''40.7128,-74.0060'' 1 calls =
           (Inr [Text (forecast_markdown rt \<lparr>latitude = 407128 / 10000, longitude = - (740060 / 10000)\<rparr>
                         1 \<lparr>updateTime = t, periods = [p1, p2]\<rparr>)],
            calls @ [WEATHER_API_BASE @ pointsPath rt (407128 / 10000) (- (740060 / 10000)),
                     WEATHER_API_BASE @ ''/gridpoints/OKX/32,34/forecast''])
         \<and> str_includes (forecast_markdown rt \<lparr>latitude = 407128 / 10000, longitude = - (740060 / 10000)\<rparr>
                         1 \<lparr>updateTime = t, periods = [p1, p2]\<rparr>) (name p1)
         \<and> str_includes (forecast_markdown rt \<lparr>latitude = 407128 / 10000, longitude = - (740060 / 10000)\<rparr>
                         1 \<lparr>updateTime = t, periods = [p1, p2]\<rparr>) (name p2)"
proof -
  let ?u1 = "WEATHER_API_BASE @ pointsPath rt (407128 / 10000) (- (740060 / 10000))"
  have a: "getPointMetadata rt (fetch_point up) (407128 / 10000) (- (740060 / 10000)) calls =
             (Inr \<lparr>gridId = ''OKX'', gridX = 32, gridY = 34\<rparr>, calls @ [?u1])"
    unfolding getPointMetadata_def
    by (rule weatherApiRequest_ok [where fetch = "fetch_point up", OF pt ok1])
  have b: "weatherApiRequest (fetch_forecast up) (''/gridpoints/OKX/32,34'' @ ''/forecast'') (calls @ [?u1]) =
             (Inr \<lparr>updateTime = t, periods = [p1, p2]\<rparr>,
              (calls @ [?u1]) @ [WEATHER_API_BASE @ ''/gridpoints/OKX/32,34'' @ ''/forecast''])"
    using fc ok2 by (simp add: weatherApiRequest_ok [where fetch = "fetch_forecast up"])
  have run: "get_weather_forecast rt up ''40.7128,-74.0060'' 1 calls =
           (Inr [Text (forecast_markdown rt \<lparr>latitude = 407128 / 10000, longitude = - (740060 / 10000)\<rparr>
                         1 \<lparr>updateTime = t, periods = [p1, p2]\<rparr>)],
            calls @ [?u1, WEATHER_API_BASE @ ''/gridpoints/OKX/32,34/forecast''])"
    using a b
    by (simp add: get_weather_forecast_def get_weather_forecast_try_def handler_catch_def
        try_catch_def bind_apply lift_def return_def parse_nyc gridpointPath_okx)
  have i1: "str_includes (forecast_markdown rt \<lparr>latitude = 407128 / 10000, longitude = - (740060 / 10000)\<rparr>
                         1 \<lparr>updateTime = t, periods = [p1, p2]\<rparr>) (name p1)"
    unfolding forecast_two_periods by (rule period_markdown_includes_name)
  have i2: "str_includes (forecast_markdown rt \<lparr>latitude = 407128 / 10000, longitude = - (740060 / 10000)\<rparr>
                         1 \<lparr>updateTime = t, periods = [p1, p2]\<rparr>) (name p2)"
    unfolding forecast_two_periods
    using period_markdown_includes_name [of "forecast_header rt \<lparr>latitude = 407128 / 10000, longitude = - (740060 / 10000)\<rparr> 1 \<lparr>updateTime = t, periods = [p1, p2]\<rparr> @ period_markdown rt p1" rt p2 "[]"]
    by simp
  from run i1 i2 show ?thesis by blast
qed

text \<open>C3 on the stub upstream: the two calls, in order, and both period names.\<close>

lemma pointsPath_stub:
  "pointsPath stub_runtime (50891 / 1250) (- (37003 / 500)) = ''/points/40.7128,-74.006''"
  by code_simp

lemma number_to_string_stub:
  "number_to_string stub_runtime (50891 / 1250) = ''40.7128''"
  "number_to_string stub_runtime (- (37003 / 500)) = ''-74.006''"
  "number_to_string stub_runtime 1 = ''1''"
  "number_to_string stub_runtime 41 = ''41''"
  by code_simp+

lemma toLocaleString_stub: "toLocaleString stub_runtime t = t"
  by (simp add: stub_runtime_def)

lemma forecast_stub_text:
  "forecast_markdown stub_runtime \<lparr>latitude = 407128 / 10000, longitude = - (740060 / 10000)\<rparr> 1
     \<lparr>updateTime = ''2024-01-01T00:00:00Z'',
      periods = [stub_period ''Tonight'', stub_period ''Monday'']\<rparr> =
   ''# 1-Day Weather Forecast'' @ nl @ nl @
   ''**Location:** 40.7128, -74.006'' @ nl @
   ''**Updated:** 2024-01-01T00:00:00Z'' @ nl @ nl @
   ''## Tonight'' @ nl @ nl @
   ''**Temperature:** 41'' @ deg @ ''F'' @ nl @
   ''**Conditions:** Clear'' @ nl @ nl @
   ''Clear skies.'' @ nl @ nl @ ''---'' @ nl @ nl @
   ''## Monday'' @ nl @ nl @
   ''**Temperature:** 41'' @ deg @ ''F'' @ nl @
   ''**Conditions:** Clear'' @ nl @ nl @
   ''Clear skies.'' @ nl @ nl @ ''---'' @ nl @ nl"
  by (simp add: forecast_two_periods forecast_header_def period_markdown_def stub_period_def
      number_to_string_stub toLocaleString_stub)

theorem C3_forecast_chain_witness:
  "get_weather_forecast stub_runtime stub_weather ''40.7128,-74.0060'' 1 [] =
     (Inr [Text (forecast_markdown stub_runtime
                   \<lparr>latitude = 407128 / 10000, longitude = - (740060 / 10000)\<rparr> 1
                   \<lparr>updateTime = ''2024-01-01T00:00:00Z'',
                    periods = [stub_period ''Tonight'', stub_period ''Monday'']\<rparr>)],
      [''https://api.weather.gov/points/40.7128,-74.006'',
       ''https://api.weather.gov/gridpoints/OKX/32,34/forecast''])
   \<and> str_includes (forecast_markdown stub_runtime
                   \<lparr>latitude = 407128 / 10000, longitude = - (740060 / 10000)\<rparr> 1
                   \<lparr>updateTime = ''2024-01-01T00:00:00Z'',
                    periods = [stub_period ''Tonight'', stub_period ''Monday'']\<rparr>) ''Tonight''
   \<and> str_includes (forecast_markdown stub_runtime
                   \<lparr>latitude = 407128 / 10000, longitude = - (740060 / 10000)\<rparr> 1
                   \<lparr>updateTime = ''2024-01-01T00:00:00Z'',
                    periods = [stub_period ''Tonight'', stub_period ''Monday'']\<rparr>) ''Monday''
   \<and> forecast_markdown stub_runtime
         \<lparr>latitude = 407128 / 10000, longitude = - (740060 / 10000)\<rparr> 1
         \<lparr>updateTime = ''2024-01-01T00:00:00Z'',
          periods = [stub_period ''Tonight'', stub_period ''Monday'']\<rparr> =
       ''# 1-Day Weather Forecast'' @ nl @ nl @
       ''**Location:** 40.7128, -74.006'' @ nl @
       ''**Updated:** 2024-01-01T00:00:00Z'' @ nl @ nl @
       ''## Tonight'' @ nl @ nl @
       ''**Temperature:** 41'' @ deg @ ''F'' @ nl @
       ''**Conditions:** Clear'' @ nl @ nl @
       ''Clear skies.'' @ nl @ nl @ ''---'' @ nl @ nl @
       ''## Monday'' @ nl @ nl @
       ''**Temperature:** 41'' @ deg @ ''F'' @ nl @
       ''**Conditions:** Clear'' @ nl @ nl @
       ''Clear skies.'' @ nl @ nl @ ''---'' @ nl @ nl"
proof -
  have run: "get_weather_forecast stub_runtime stub_weather ''40.7128,-74.0060'' 1 [] =
     (Inr [Text (forecast_markdown stub_runtime
                   \<lparr>latitude = 407128 / 10000, longitude = - (740060 / 10000)\<rparr> 1
                   \<lparr>updateTime = ''2024-01-01T00:00:00Z'',
                    periods = [stub_period ''Tonight'', stub_period ''Monday'']\<rparr>)],
      [''https://api.weather.gov/points/40.7128,-74.006'',
       ''https://api.weather.gov/gridpoints/OKX/32,34/forecast''])
   \<and> str_includes (forecast_markdown stub_runtime
                   \<lparr>latitude = 407128 / 10000, longitude = - (740060 / 10000)\<rparr> 1
                   \<lparr>updateTime = ''2024-01-01T00:00:00Z'',
                    periods = [stub_period ''Tonight'', stub_period ''Monday'']\<rparr>) ''Tonight''
   \<and> str_includes (forecast_markdown stub_runtime
                   \<lparr>latitude = 407128 / 10000, longitude = - (740060 / 10000)\<rparr> 1
                   \<lparr>updateTime = ''2024-01-01T00:00:00Z'',
                    periods = [stub_period ''Tonight'', stub_period ''Monday'']\<rparr>) ''Monday''"
    using C3_forecast_chain [of stub_weather "[]" stub_runtime 200 "''OK''" 200 "''OK''"
        "''2024-01-01T00:00:00Z''" "stub_period ''Tonight''" "stub_period ''Monday''"]
    by (simp add: pointsPath_stub stub_weather_def WEATHER_API_BASE_def response_ok_def
        stub_period_def)
  from run have a: "get_weather_forecast stub_runtime stub_weather ''40.7128,-74.0060'' 1 [] =
     (Inr [Text (forecast_markdown stub_runtime
                   \<lparr>latitude = 407128 / 10000, longitude = - (740060 / 10000)\<rparr> 1
                   \<lparr>updateTime = ''2024-01-01T00:00:00Z'',
                    periods = [stub_period ''Tonight'', stub_period ''Monday'']\<rparr>)],
      [''https://api.weather.gov/points/40.7128,-74.006'',
       ''https://api.weather.gov/gridpoints/OKX/32,34/forecast''])"
    by (rule conjunct1)
  from run have b: "str_includes (forecast_markdown stub_runtime
                   \<lparr>latitude = 407128 / 10000, longitude = - (740060 / 10000)\<rparr> 1
                   \<lparr>updateTime = ''2024-01-01T00:00:00Z'',
                    periods = [stub_period ''Tonight'', stub_period ''Monday'']\<rparr>) ''Tonight''"
    by (rule conjunct2 [THEN conjunct1])
  from run have c: "str_includes (forecast_markdown stub_runtime
                   \<lparr>latitude = 407128 / 10000, longitude = - (740060 / 10000)\<rparr> 1
                   \<lparr>updateTime = ''2024-01-01T00:00:00Z'',
                    periods = [stub_period ''Tonight'', stub_period ''Monday'']\<rparr>) ''Monday''"
    by (rule conjunct2 [THEN conjunct2])
  show ?thesis
    by (intro conjI) (rule a b c forecast_stub_text)+
qed

section \<open>The alerts tool on a location it cannot read\<close>

lemma handler_catch_apply:
  "handler_catch body calls =
     (case body calls of
        (Inl e, calls') \<Rightarrow> (Inr [Text (error_text e)], calls')
      | (Inr r, calls') \<Rightarrow> (Inr r, calls'))"
  by (simp add: handler_catch_def try_catch_def return_def)

lemma snd_weatherApiRequest:
  "snd (weatherApiRequest fetch ep calls) = calls @ [WEATHER_API_BASE @ ep]"
  by (simp add: weatherApiRequest_def Let_def split: sum.split)

lemma weatherApiRequest_cases:
  "weatherApiRequest fetch ep calls =
     (fst (weatherApiRequest fetch ep calls), calls @ [WEATHER_API_BASE @ ep])"
  by (metis prod.collapse snd_weatherApiRequest)

lemma alertsEndpoint_fallback:
  "\<not> is_state_code location \<Longrightarrow> coordMatch location = None \<Longrightarrow>
   alertsEndpoint rt location = ''/alerts/active''"
  by (simp add: alertsEndpoint_def parseLocation_def)

lemma get_weather_alerts_apply:
  "get_weather_alerts rt up location sev calls =
     (case fst (weatherApiRequest (fetch_alerts up) (alertsEndpoint rt location) calls) of
        Inl e \<Rightarrow> Inr [Text (error_text e)]
      | Inr alertsData \<Rightarrow> Inr [Text (alerts_text rt location sev alertsData)],
      calls @ [WEATHER_API_BASE @ alertsEndpoint rt location])"
  apply (subst get_weather_alerts_def)
  apply (subst handler_catch_apply)
  apply (subst get_weather_alerts_try_def)
  apply (subst bind_apply)
  apply (subst weatherApiRequest_cases)
  apply (simp add: return_def split: sum.split)
  done

text \<open>
  C9. For a location that is neither a state code (two upper-case letters) nor a
  coordinate pair, the alerts tool issues one upstream call, to the nationwide endpoint
  "/alerts/active", and when that request succeeds the result is the text made from the
  alerts it returned: the location is not rejected.
\<close>

theorem C9_alerts_fallback:
  assumes "\<not> is_state_code location" and "coordMatch location = None"
  shows "alertsEndpoint rt location = ''/alerts/active''
         \<and> snd (get_weather_alerts rt up location sev calls) =
             calls @ [WEATHER_API_BASE @ ''/alerts/active'']
         \<and> (\<forall>status st alertsData.
               fetch_alerts up calls (WEATHER_API_BASE @ ''/alerts/active'') =
                 Response status st (Inr alertsData) \<and> response_ok status \<longrightarrow>
               fst (get_weather_alerts rt up location sev calls) =
                 Inr [Text (alerts_text rt location sev alertsData)])"
proof -
  have ep: "alertsEndpoint rt location = ''/alerts/active''"
    using assms by (rule alertsEndpoint_fallback)
  have ok: "fst (get_weather_alerts rt up location sev calls) =
              Inr [Text (alerts_text rt location sev alertsData)]"
    if "fetch_alerts up calls (WEATHER_API_BASE @ ''/alerts/active'') =
          Response status st (Inr alertsData)" and "response_ok status"
    for status st alertsData
    using that
    by (simp add: get_weather_alerts_apply ep
        weatherApiRequest_ok [where fetch = "fetch_alerts up"])
  show ?thesis
    using ep ok by (simp add: get_weather_alerts_apply)
qed

lemma alerts_text_stub:
  "alerts_text stub_runtime ''Boston'' ''all'' \<lparr>alert_features = Some [stub_alert]\<rparr> =
     ''# Weather Alerts for Boston'' @ nl @ nl @ ''Found 1 active alert(s)'' @ nl @ nl @
     ''## Flood Watch'' @ nl @ nl @ ''**Severity:** Severe'' @ nl @ ''**Urgency:** Expected'' @ nl @
     ''**Areas:** Suffolk'' @ nl @ nl @ ''**Description:**'' @ nl @ ''Heavy rain.'' @ nl @ nl @
     ''---'' @ nl @ nl"
  by (simp add: alerts_text_def filterAlerts_def alert_markdown_def stub_alert_def
      show_nat.simps digit_char_def)

theorem C9_alerts_fallback_witness:
  "alertsEndpoint stub_runtime ''Boston'' = ''/alerts/active''
   \<and> get_weather_alerts stub_runtime stub_weather ''Boston'' ''all'' [] =
       (Inr [Text (''# Weather Alerts for Boston'' @ nl @ nl @ ''Found 1 active alert(s)'' @ nl @ nl @
          ''## Flood Watch'' @ nl @ nl @ ''**Severity:** Severe'' @ nl @ ''**Urgency:** Expected'' @ nl @
          ''**Areas:** Suffolk'' @ nl @ nl @ ''**Description:**'' @ nl @ ''Heavy rain.'' @ nl @ nl @
          ''---'' @ nl @ nl)],
        [''https://api.weather.gov/alerts/active''])"
proof -
  have a: "\<not> is_state_code ''Boston''"
    by (simp add: is_state_code_def)
  have b: "coordMatch ''Boston'' = None"
    by (simp add: coordMatch_def)
  have c: "fetch_alerts stub_weather [] (WEATHER_API_BASE @ ''/alerts/active'') =
             Response 200 ''OK'' (Inr \<lparr>alert_features = Some [stub_alert]\<rparr>) \<and> response_ok 200"
    by (simp add: stub_weather_def WEATHER_API_BASE_def response_ok_def)
  note r = C9_alerts_fallback [OF a b, of stub_runtime stub_weather "''all''" "[]"]
  from r have "fst (get_weather_alerts stub_runtime stub_weather ''Boston'' ''all'' []) =
                 Inr [Text (alerts_text stub_runtime ''Boston'' ''all''
                              \<lparr>alert_features = Some [stub_alert]\<rparr>)]"
    using c by blast
  moreover from r have "snd (get_weather_alerts stub_runtime stub_weather ''Boston'' ''all'' []) =
                 [''https://api.weather.gov/alerts/active'']"
    by (simp add: WEATHER_API_BASE_def)
  moreover from r have "alertsEndpoint stub_runtime ''Boston'' = ''/alerts/active''"
    by blast
  ultimately show ?thesis
    by (simp add: alerts_text_stub prod_eq_iff)
qed

section \<open>Stations whose latest observation cannot be fetched\<close>

lemma station_report_apply:
  "station_report rt up props calls =
     (case fst (weatherApiRequest (fetch_observation up)
                  (observationPath (stationIdentifier props)) calls) of
        Inl e \<Rightarrow> Inr latest_not_available
      | Inr obsData \<Rightarrow> Inr (observation_lines rt obsData),
      calls @ [WEATHER_API_BASE @ observationPath (stationIdentifier props)])"
  apply (subst station_report_def)
  apply (subst try_catch_def)
  apply (subst bind_apply)
  apply (subst weatherApiRequest_cases)
  apply (simp add: return_def split: sum.split)
  done

lemma station_section_apply:
  "station_section rt up props calls =
     (Inr (station_head rt props @
           (case fst (weatherApiRequest (fetch_observation up)
                        (observationPath (stationIdentifier props)) calls) of
              Inl e \<Rightarrow> latest_not_available
            | Inr obsData \<Rightarrow> observation_lines rt obsData) @
           nl @ ''---'' @ nl @ nl),
      calls @ [WEATHER_API_BASE @ observationPath (stationIdentifier props)])"
  by (simp add: station_section_def bind_apply station_report_apply return_def split: sum.split)

lemma stations_loop_sections:
  "\<exists>sections.
     length sections = length stations
     \<and> stations_loop rt up stations markdown calls =
         (Inr (markdown @ concat sections),
          calls @ map (\<lambda>s. WEATHER_API_BASE @ observationPath (stationIdentifier s)) stations)
     \<and> (\<forall>i<length stations.
          sections ! i =
            station_head rt (stations ! i) @
            (case fst (weatherApiRequest (fetch_observation up)
                         (observationPath (stationIdentifier (stations ! i)))
                         (calls @ map (\<lambda>s. WEATHER_API_BASE @ observationPath (stationIdentifier s))
                                    (take i stations))) of
               Inl e \<Rightarrow> latest_not_available
             | Inr obsData \<Rightarrow> observation_lines rt obsData) @
            nl @ ''---'' @ nl @ nl)"
proof (induction stations arbitrary: markdown calls)
  case Nil
  show ?case by (simp add: return_def)
next
  case (Cons station rest)
  let ?url = "\<lambda>s. WEATHER_API_BASE @ observationPath (stationIdentifier s)"
  let ?text = "\<lambda>s cs. station_head rt s @
            (case fst (weatherApiRequest (fetch_observation up)
                         (observationPath (stationIdentifier s)) cs) of
               Inl e \<Rightarrow> latest_not_available
             | Inr obsData \<Rightarrow> observation_lines rt obsData) @
            nl @ ''---'' @ nl @ nl"
  have first: "station_section rt up station calls = (Inr (?text station calls), calls @ [?url station])"
    by (rule station_section_apply)
  from Cons.IH [of "markdown @ ?text station calls" "calls @ [?url station]"]
  obtain sections where
    len: "length sections = length rest"
    and run: "stations_loop rt up rest (markdown @ ?text station calls) (calls @ [?url station]) =
            (Inr ((markdown @ ?text station calls) @ concat sections),
             (calls @ [?url station]) @ map ?url rest)"
    and each: "\<forall>i<length rest.
          sections ! i = ?text (rest ! i) ((calls @ [?url station]) @ map ?url (take i rest))"
    by blast
  have "length (?text station calls # sections) = length (station # rest)"
    using len by simp
  moreover have "stations_loop rt up (station # rest) markdown calls =
          (Inr (markdown @ concat (?text station calls # sections)),
           calls @ map ?url (station # rest))"
    using first run by (simp add: bind_apply)
  moreover have "\<forall>i<length (station # rest).
          (?text station calls # sections) ! i =
            ?text ((station # rest) ! i) (calls @ map ?url (take i (station # rest)))"
  proof (intro allI impI)
    fix i
    assume i: "i < length (station # rest)"
    show "(?text station calls # sections) ! i =
            ?text ((station # rest) ! i) (calls @ map ?url (take i (station # rest)))"
    proof (cases i)
      case 0
      then show ?thesis by simp
    next
      case (Suc j)
      with i have "j < length rest" by simp
      with each have "sections ! j = ?text (rest ! j) ((calls @ [?url station]) @ map ?url (take j rest))"
        by blast
      with Suc show ?thesis by simp
    qed
  qed
  ultimately show ?case by blast
qed

text \<open>
  C7. When the location parses, the point request and the stations request succeed and
  there is a station, the station-lookup tool returns the stations report (never an
  error text), one section per station in order, whatever the observation requests do;
  and the section of a station whose observation request fails, at the point of the run
  where it is made, is the station's heading, its identifier line, its elevation and
  distance lines, and then the line "**Latest Report:** Not available".
\<close>

theorem C7_station_placeholder:
  assumes loc: "parseLocation location = Inr c"
    and point: "getPointMetadata rt (fetch_point up) (latitude c) (longitude c) calls =
                  (Inr pointData, calls1)"
    and stations: "weatherApiRequest (fetch_stations up)
                     (gridpointPath rt pointData @ ''/stations?limit='' @ number_to_string rt limit)
                     calls1 = (Inr stationsData, calls2)"
    and features: "station_features stationsData = Some stations"
    and nonempty: "stations \<noteq> []"
  shows "\<exists>sections.
           length sections = length stations
           \<and> find_weather_stations rt up location limit calls =
               (Inr [Text (''# Weather Stations Near '' @ location @ nl @ nl @
                           ''Found '' @ show_nat (length stations) @ '' station(s)'' @ nl @ nl @
                           concat sections)],
                calls2 @ map (\<lambda>s. WEATHER_API_BASE @ ''/stations/'' @ stationIdentifier s @
                                     ''/observations/latest'') stations)
           \<and> (\<forall>i<length stations.
                (\<exists>e. fst (weatherApiRequest (fetch_observation up)
                             (''/stations/'' @ stationIdentifier (stations ! i) @
                              ''/observations/latest'')
                             (calls2 @ map (\<lambda>s. WEATHER_API_BASE @ ''/stations/'' @
                                                  stationIdentifier s @ ''/observations/latest'')
                                         (take i stations))) = Inl e) \<longrightarrow>
                sections ! i =
                  ''## '' @ station_name (stations ! i) @ nl @ nl @
                  ''**Station ID:** '' @ stationIdentifier (stations ! i) @ nl @
                  (case elevation (stations ! i) of
                     None \<Rightarrow> []
                   | Some v \<Rightarrow> if v \<noteq> 0
                       then ''**Elevation:** '' @ toFixed rt (v * (328084 / 100000)) 0 @ '' ft'' @ nl
                       else []) @
                  (case distance (stations ! i) of
                     None \<Rightarrow> []
                   | Some v \<Rightarrow> if v \<noteq> 0
                       then ''**Distance:** '' @ toFixed rt ((v / 1000) * (621371 / 1000000)) 1 @
                            '' miles'' @ nl
                       else []) @
                  ''**Latest Report:** Not available'' @ nl @
                  nl @ ''---'' @ nl @ nl)"
proof -
  let ?url = "\<lambda>s. WEATHER_API_BASE @ observationPath (stationIdentifier s)"
  from stations_loop_sections [of stations rt up "stations_header location stations" calls2]
  obtain sections where
    len: "length sections = length stations"
    and run: "stations_loop rt up stations (stations_header location stations) calls2 =
            (Inr (stations_header location stations @ concat sections),
             calls2 @ map ?url stations)"
    and each: "\<forall>i<length stations.
          sections ! i =
            station_head rt (stations ! i) @
            (case fst (weatherApiRequest (fetch_observation up)
                         (observationPath (stationIdentifier (stations ! i)))
                         (calls2 @ map ?url (take i stations))) of
               Inl e \<Rightarrow> latest_not_available
             | Inr obsData \<Rightarrow> observation_lines rt obsData) @
            nl @ ''---'' @ nl @ nl"
    by blast
  have result: "find_weather_stations rt up location limit calls =
             (Inr [Text (stations_header location stations @ concat sections)],
              calls2 @ map ?url stations)"
    using loc point stations features nonempty run
    by (simp add: find_weather_stations_def find_weather_stations_try_def handler_catch_apply
        bind_apply lift_def return_def)
  have placeholder: "sections ! i =
            station_head rt (stations ! i) @ latest_not_available @ nl @ ''---'' @ nl @ nl"
    if "i < length stations"
      and "fst (weatherApiRequest (fetch_observation up)
                  (observationPath (stationIdentifier (stations ! i)))
                  (calls2 @ map ?url (take i stations))) = Inl e"
    for i e
    using each that by simp
  show ?thesis
  proof (intro exI conjI allI impI)
    show "length sections = length stations" by (rule len)
    show "find_weather_stations rt up location limit calls =
               (Inr [Text (''# Weather Stations Near '' @ location @ nl @ nl @
                           ''Found '' @ show_nat (length stations) @ '' station(s)'' @ nl @ nl @
                           concat sections)],
                calls2 @ map (\<lambda>s. WEATHER_API_BASE @ ''/stations/'' @ stationIdentifier s @
                                     ''/observations/latest'') stations)"
      using result by (simp add: stations_header_def observationPath_def)
  next
    fix i
    assume i: "i < length stations"
      and "\<exists>e. fst (weatherApiRequest (fetch_observation up)
                             (''/stations/'' @ stationIdentifier (stations ! i) @
                              ''/observations/latest'')
                             (calls2 @ map (\<lambda>s. WEATHER_API_BASE @ ''/stations/'' @
                                                  stationIdentifier s @ ''/observations/latest'')
                                         (take i stations))) = Inl e"
    then obtain e where "fst (weatherApiRequest (fetch_observation up)
                  (observationPath (stationIdentifier (stations ! i)))
                  (calls2 @ map ?url (take i stations))) = Inl e"
      by (auto simp: observationPath_def)
    from placeholder [OF i this]
    show "sections ! i =
                  ''## '' @ station_name (stations ! i) @ nl @ nl @
                  ''**Station ID:** '' @ stationIdentifier (stations ! i) @ nl @
                  (case elevation (stations ! i) of
                     None \<Rightarrow> []
                   | Some v \<Rightarrow> if v \<noteq> 0
                       then ''**Elevation:** '' @ toFixed rt (v * (328084 / 100000)) 0 @ '' ft'' @ nl
                       else []) @
                  (case distance (stations ! i) of
                     None \<Rightarrow> []
                   | Some v \<Rightarrow> if v \<noteq> 0
                       then ''**Distance:** '' @ toFixed rt ((v / 1000) * (621371 / 1000000)) 1 @
                            '' miles'' @ nl
                       else []) @
                  ''**Latest Report:** Not available'' @ nl @
                  nl @ ''---'' @ nl @ nl"
      by (simp add: station_head_def latest_not_available_def)
  qed
qed

text \<open>
  C7 on the stub upstream: station KLGA, whose observation request gets a 500, is
  reported with the placeholder, after four upstream calls; the whole text is spelled out.
\<close>

lemma show_int_10: "show_int 10 = ''10''"
  by (simp add: show_int_def show_nat.simps digit_char_def)

lemma stub_point_request:
  "getPointMetadata stub_runtime (fetch_point stub_weather) (407128 / 10000) (- (740060 / 10000)) [] =
     (Inr \<lparr>gridId = ''OKX'', gridX = 32, gridY = 34\<rparr>,
      [''https://api.weather.gov/points/40.7128,-74.006''])"
  by (simp add: getPointMetadata_def pointsPath_stub weatherApiRequest_def
      weatherApiRequest_try_def stub_weather_def WEATHER_API_BASE_def response_ok_def)

lemma stub_stations_request:
  "weatherApiRequest (fetch_stations stub_weather)
     (gridpointPath stub_runtime \<lparr>gridId = ''OKX'', gridX = 32, gridY = 34\<rparr> @
        ''/stations?limit='' @ number_to_string stub_runtime 10)
     [''https://api.weather.gov/points/40.7128,-74.006''] =
     (Inr \<lparr>station_features = Some [stub_station ''KNYC'', stub_station ''KLGA'']\<rparr>,
      [''https://api.weather.gov/points/40.7128,-74.006'',
       ''https://api.weather.gov/gridpoints/OKX/32,34/stations?limit=10''])"
  by (simp add: gridpointPath_okx number_to_string_def is_integral_def show_int_10
      weatherApiRequest_def weatherApiRequest_try_def stub_weather_def WEATHER_API_BASE_def
      response_ok_def)

lemma stub_klga_fails:
  "fst (weatherApiRequest (fetch_observation stub_weather)
          (''/stations/'' @ stationIdentifier (stub_station ''KLGA'') @ ''/observations/latest'')
          cs) = Inl (JsError msg_unavailable)"
  by (simp add: weatherApiRequest_def weatherApiRequest_try_def weatherApiRequest_catch_def
      includes_unavailable stub_weather_def WEATHER_API_BASE_def response_ok_def stub_station_def)

lemma stub_knyc_report:
  "station_section stub_runtime stub_weather (stub_station ''KNYC'') cs =
     (Inr (''## KNYC'' @ nl @ nl @ ''**Station ID:** KNYC'' @ nl @ nl @ ''---'' @ nl @ nl),
      cs @ [''https://api.weather.gov/stations/KNYC/observations/latest''])"
  by (simp add: station_section_apply station_head_def stub_station_def observationPath_def
      weatherApiRequest_def weatherApiRequest_try_def stub_weather_def WEATHER_API_BASE_def
      response_ok_def observation_lines_def)

lemma stub_klga_report:
  "station_section stub_runtime stub_weather (stub_station ''KLGA'') cs =
     (Inr (''## KLGA'' @ nl @ nl @ ''**Station ID:** KLGA'' @ nl @
           ''**Latest Report:** Not available'' @ nl @ nl @ ''---'' @ nl @ nl),
      cs @ [''https://api.weather.gov/stations/KLGA/observations/latest''])"
  by (simp add: station_section_apply station_head_def stub_station_def observationPath_def
      weatherApiRequest_def weatherApiRequest_try_def weatherApiRequest_catch_def
      includes_unavailable stub_weather_def WEATHER_API_BASE_def response_ok_def
      latest_not_available_def)

lemma stub_stations_run:
  "find_weather_stations stub_runtime stub_weather ''40.7128,-74.0060'' 10 [] =
     (Inr [Text (''# Weather Stations Near 40.7128,-74.0060'' @ nl @ nl @
                 ''Found 2 station(s)'' @ nl @ nl @
                 ''## KNYC'' @ nl @ nl @ ''**Station ID:** KNYC'' @ nl @ nl @ ''---'' @ nl @ nl @
                 ''## KLGA'' @ nl @ nl @ ''**Station ID:** KLGA'' @ nl @
                 ''**Latest Report:** Not available'' @ nl @ nl @ ''---'' @ nl @ nl)],
      [''https://api.weather.gov/points/40.7128,-74.006'',
       ''https://api.weather.gov/gridpoints/OKX/32,34/stations?limit=10'',
       ''https://api.weather.gov/stations/KNYC/observations/latest'',
       ''https://api.weather.gov/stations/KLGA/observations/latest''])"
  using stub_point_request stub_stations_request
  by (simp add: find_weather_stations_def find_weather_stations_try_def handler_catch_apply
      bind_apply lift_def return_def parse_nyc stub_knyc_report stub_klga_report
      stations_header_def show_nat.simps digit_char_def)

theorem C7_station_placeholder_witness:
  "find_weather_stations stub_runtime stub_weather ''40.7128,-74.0060'' 10 [] =
     (Inr [Text (''# Weather Stations Near 40.7128,-74.0060'' @ nl @ nl @
                 ''Found 2 station(s)'' @ nl @ nl @
                 ''## KNYC'' @ nl @ nl @ ''**Station ID:** KNYC'' @ nl @ nl @ ''---'' @ nl @ nl @
                 ''## KLGA'' @ nl @ nl @ ''**Station ID:** KLGA'' @ nl @
                 ''**Latest Report:** Not available'' @ nl @ nl @ ''---'' @ nl @ nl)],
      [''https://api.weather.gov/points/40.7128,-74.006'',
       ''https://api.weather.gov/gridpoints/OKX/32,34/stations?limit=10'',
       ''https://api.weather.gov/stations/KNYC/observations/latest'',
       ''https://api.weather.gov/stations/KLGA/observations/latest''])
   \<and> nl = [CHR 0x0A]
   \<and> (\<exists>sections.
        length sections = 2
        \<and> fst (find_weather_stations stub_runtime stub_weather ''40.7128,-74.0060'' 10 []) =
            Inr [Text (''# Weather Stations Near 40.7128,-74.0060'' @ nl @ nl @
                       ''Found 2 station(s)'' @ nl @ nl @ concat sections)]
        \<and> sections ! 1 =
            ''## KLGA'' @ nl @ nl @ ''**Station ID:** KLGA'' @ nl @
            ''**Latest Report:** Not available'' @ nl @ nl @ ''---'' @ nl @ nl)"
proof -
  let ?stations = "[stub_station ''KNYC'', stub_station ''KLGA'']"
  have c: "latitude \<lparr>latitude = 407128 / 10000, longitude = - (740060 / 10000)\<rparr> = 407128 / 10000"
    "longitude \<lparr>latitude = 407128 / 10000, longitude = - (740060 / 10000)\<rparr> = - (740060 / 10000)"
    by simp_all
  from C7_station_placeholder [OF parse_nyc, of stub_runtime stub_weather "[]", unfolded c,
      OF stub_point_request stub_stations_request, of ?stations]
  obtain sections where
    len: "length sections = length ?stations"
    and run: "find_weather_stations stub_runtime stub_weather ''40.7128,-74.0060'' 10 [] =
       (Inr [Text (''# Weather Stations Near '' @ ''40.7128,-74.0060'' @ nl @ nl @
                   ''Found '' @ show_nat (length ?stations) @ '' station(s)'' @ nl @ nl @
                   concat sections)],
        [''https://api.weather.gov/points/40.7128,-74.006'',
         ''https://api.weather.gov/gridpoints/OKX/32,34/stations?limit=10''] @
        map (\<lambda>s. WEATHER_API_BASE @ ''/stations/'' @ stationIdentifier s @
                   ''/observations/latest'') ?stations)"
    and each: "\<forall>i<length ?stations.
                (\<exists>e. fst (weatherApiRequest (fetch_observation stub_weather)
                             (''/stations/'' @ stationIdentifier (?stations ! i) @
                              ''/observations/latest'')
                             ([''https://api.weather.gov/points/40.7128,-74.006'',
                               ''https://api.weather.gov/gridpoints/OKX/32,34/stations?limit=10''] @
                              map (\<lambda>s. WEATHER_API_BASE @ ''/stations/'' @
                                         stationIdentifier s @ ''/observations/latest'')
                                (take i ?stations))) = Inl e) \<longrightarrow>
                sections ! i =
                  ''## '' @ station_name (?stations ! i) @ nl @ nl @
                  ''**Station ID:** '' @ stationIdentifier (?stations ! i) @ nl @
                  (case elevation (?stations ! i) of
                     None \<Rightarrow> []
                   | Some v \<Rightarrow> if v \<noteq> 0
                       then ''**Elevation:** '' @ toFixed stub_runtime (v * (328084 / 100000)) 0 @
                            '' ft'' @ nl
                       else []) @
                  (case distance (?stations ! i) of
                     None \<Rightarrow> []
                   | Some v \<Rightarrow> if v \<noteq> 0
                       then ''**Distance:** '' @
                            toFixed stub_runtime ((v / 1000) * (621371 / 1000000)) 1 @
                            '' miles'' @ nl
                       else []) @
                  ''**Latest Report:** Not available'' @ nl @
                  nl @ ''---'' @ nl @ nl"
    by auto
  from each [rule_format, of 1] stub_klga_fails
  have klga: "sections ! 1 =
            ''## KLGA'' @ nl @ nl @ ''**Station ID:** KLGA'' @ nl @
            ''**Latest Report:** Not available'' @ nl @ nl @ ''---'' @ nl @ nl"
    by (simp add: stub_station_def)
  from len have two: "length sections = 2" by simp
  from run have body: "fst (find_weather_stations stub_runtime stub_weather ''40.7128,-74.0060'' 10 []) =
            Inr [Text (''# Weather Stations Near 40.7128,-74.0060'' @ nl @ nl @
                       ''Found 2 station(s)'' @ nl @ nl @ concat sections)]"
    by (simp add: show_nat.simps digit_char_def)
  from two body klga have "\<exists>sections.
        length sections = 2
        \<and> fst (find_weather_stations stub_runtime stub_weather ''40.7128,-74.0060'' 10 []) =
            Inr [Text (''# Weather Stations Near 40.7128,-74.0060'' @ nl @ nl @
                       ''Found 2 station(s)'' @ nl @ nl @ concat sections)]
        \<and> sections ! 1 =
            ''## KLGA'' @ nl @ nl @ ''**Station ID:** KLGA'' @ nl @
            ''**Latest Report:** Not available'' @ nl @ nl @ ''---'' @ nl @ nl"
    by blast
  with stub_stations_run show ?thesis
    by (simp only: nl_def simp_thms)
qed

section \<open>Failures of a handler\<close>



lemma handler_catch_calls: "snd (handler_catch body calls) = snd (body calls)"
  by (cases "body calls") (auto simp: handler_catch_apply split: sum.split)

lemma search_repositories_apply:
  "search_repositories rt ok query per_page page calls =
     (case search_repositories_try rt ok query per_page page calls of
        (Inl e, calls') \<Rightarrow> (Inr [Text (github_error_text e)], calls')
      | (Inr r, calls') \<Rightarrow> (Inr r, calls'))"
  by (simp add: search_repositories_def try_catch_def return_def)



















section \<open>Validation of the raw input\<close>

lemma validate_fields_fails:
  "(k, v) \<in> set vs \<Longrightarrow> v (map_of raw k) = Inl e \<Longrightarrow> \<exists>err. validate_fields vs raw = Inl err"
proof (induction vs)
  case Nil
  then show ?case by simp
next
  case (Cons a vs)
  obtain k' v' where a: "a = (k', v')" by (cases a)
  show ?case
  proof (cases "(k, v) = (k', v')")
    case True
    with Cons.prems a show ?thesis by simp
  next
    case False
    with Cons a obtain err where "validate_fields vs raw = Inl err" by auto
    with a show ?thesis by (simp split: sum.split)
  qed
qed

lemma validate_input_fails:
  assumes "(k, s) \<in> set decls" and "validate s (map_of raw k) = Inl e"
  shows "\<exists>err. validate_input decls raw = Inl err"
proof -
  from assms(1) have "(k, validate s) \<in> set (map (map_prod id validate) decls)"
    by force
  from validate_fields_fails [OF this assms(2)] show ?thesis
    by (simp add: validate_input_def)
qed

lemma invoke_tool_invalid:
  "validate_input (inputSchema t) raw = Inl err \<Longrightarrow>
   invoke_tool t raw calls = (Inr [Text (''Error: '' @ validation_message err)], calls)"
  by (simp add: invoke_tool_def return_def)

lemma validate_required: "\<not> is_optional s \<Longrightarrow> validate s None = Inl Required"
  by (cases s) simp_all

text \<open>
  C2. A raw input that fails a tool's input schema makes the invocation the failure
  shape, whatever the handler is (the handler is not run), with the log of upstream calls
  unchanged. The schema fails as soon as one declared parameter fails its own schema:
  a required parameter that is missing, a value of another type than the declared one,
  an enum value outside the declared literals.
\<close>

theorem C2_invalid_input_rejected:
  "(validate_input (inputSchema t) raw = Inl err \<longrightarrow>
      invoke_tool t raw calls = (Inr [Text (''Error: '' @ validation_message err)], calls)
      \<and> invoke_tool (t\<lparr>handler := h\<rparr>) raw calls = invoke_tool t raw calls)
   \<and> ((k, s) \<in> set (inputSchema t) \<and> validate s (map_of raw k) = Inl e \<longrightarrow>
      (\<exists>err. validate_input (inputSchema t) raw = Inl err))
   \<and> (\<not> is_optional s \<longrightarrow> validate s None = Inl Required)
   \<and> validate SString (Some (JNum n)) = Inl (Expected ''string'')
   \<and> validate SNumber (Some (JStr x)) = Inl (Expected ''number'')
   \<and> validate (SArray s) (Some (JStr x)) = Inl (Expected ''array'')
   \<and> (x \<notin> set literals \<longrightarrow>
      validate (SOptional (SEnum literals) d) (Some (JStr x)) = Inl (NotInEnum literals))"
proof (intro conjI impI)
  assume err: "validate_input (inputSchema t) raw = Inl err"
  then show "invoke_tool t raw calls = (Inr [Text (''Error: '' @ validation_message err)], calls)"
    by (rule invoke_tool_invalid)
  from err show "invoke_tool (t\<lparr>handler := h\<rparr>) raw calls = invoke_tool t raw calls"
    by (simp add: invoke_tool_def)
next
  assume "(k, s) \<in> set (inputSchema t) \<and> validate s (map_of raw k) = Inl e"
  then show "\<exists>err. validate_input (inputSchema t) raw = Inl err"
    using validate_input_fails by blast
next
  assume "\<not> is_optional s"
  then show "validate s None = Inl Required"
    by (rule validate_required)
qed simp_all

text \<open>
  C2 on the source's schemas: \<open>mode = "flying"\<close> against the directions tool, a missing
  \<open>destination\<close>, and a string where the distance-matrix tool declares an array.
\<close>

lemma directions_flying:
  "validate_input (inputSchema (maps_directions_tool rt api_key up))
     [(''origin'', JStr ''A''), (''destination'', JStr ''B''), (''mode'', JStr ''flying'')] =
   Inl (At ''mode'' (NotInEnum [''driving'', ''walking'', ''bicycling'', ''transit'']))"
  by (simp add: validate_input_def maps_directions_tool_def mode_schema_def)

lemma directions_no_destination:
  "validate_input (inputSchema (maps_directions_tool rt api_key up)) [(''origin'', JStr ''A'')] =
   Inl (At ''destination'' Required)"
  by (simp add: validate_input_def maps_directions_tool_def mode_schema_def)

lemma distance_matrix_string:
  "validate_input (inputSchema (maps_distance_matrix_tool rt api_key up))
     [(''origins'', JStr ''A''), (''destinations'', JArr [JStr ''B''])] =
   Inl (At ''origins'' (Expected ''array''))"
  by (simp add: validate_input_def maps_distance_matrix_tool_def mode_schema_def)

theorem C2_invalid_input_rejected_witness:
  "invoke_tool (maps_directions_tool stub_json_runtime ''k'' stub_maps)
     [(''origin'', JStr ''A''), (''destination'', JStr ''B''), (''mode'', JStr ''flying'')] [] =
     (Inr [Text ''Error: mode: expected one of driving, walking, bicycling, transit''], [])
   \<and> invoke_tool (maps_directions_tool stub_json_runtime ''k'' stub_maps\<lparr>handler := stub_handler\<rparr>)
     [(''origin'', JStr ''A''), (''destination'', JStr ''B''), (''mode'', JStr ''flying'')] [] =
     (Inr [Text ''Error: mode: expected one of driving, walking, bicycling, transit''], [])
   \<and> invoke_tool (maps_directions_tool stub_json_runtime ''k'' stub_maps)
     [(''origin'', JStr ''A'')] [] =
     (Inr [Text ''Error: destination: required''], [])
   \<and> invoke_tool (maps_distance_matrix_tool stub_json_runtime ''k'' stub_maps)
     [(''origins'', JStr ''A''), (''destinations'', JArr [JStr ''B''])] [] =
     (Inr [Text ''Error: origins: expected array''], [])
   \<and> validate SString None = Inl Required
   \<and> validate (SOptional (SEnum [''driving'', ''walking'', ''bicycling'', ''transit'']) None)
       (Some (JStr ''flying'')) =
     Inl (NotInEnum [''driving'', ''walking'', ''bicycling'', ''transit''])"
proof -
  let ?t = "maps_directions_tool stub_json_runtime ''k'' stub_maps"
  let ?m = "maps_distance_matrix_tool stub_json_runtime ''k'' stub_maps"
  let ?raw = "[(''origin'', JStr ''A''), (''destination'', JStr ''B''), (''mode'', JStr ''flying'')]"
  note flying = C2_invalid_input_rejected [where t = ?t and raw = ?raw and calls = "[]"
      and h = stub_handler, THEN conjunct1, THEN mp, OF directions_flying]
  note missing = C2_invalid_input_rejected [where t = ?t and raw = "[(''origin'', JStr ''A'')]"
      and calls = "[]", THEN conjunct1, THEN mp, OF directions_no_destination]
  note mismatch = C2_invalid_input_rejected [where t = ?m
      and raw = "[(''origins'', JStr ''A''), (''destinations'', JArr [JStr ''B''])]"
      and calls = "[]", THEN conjunct1, THEN mp, OF distance_matrix_string]
  have required: "validate SString None = Inl Required"
    using C2_invalid_input_rejected [where s = SString] by simp
  have enum: "validate (SOptional (SEnum [''driving'', ''walking'', ''bicycling'', ''transit'']) None)
       (Some (JStr ''flying'')) =
     Inl (NotInEnum [''driving'', ''walking'', ''bicycling'', ''transit''])"
    using C2_invalid_input_rejected [where x = "''flying''"
        and literals = "[''driving'', ''walking'', ''bicycling'', ''transit'']" and d = None]
    by simp
  from flying missing mismatch required enum show ?thesis by simp
qed

section \<open>Defaults and undeclared parameters\<close>

lemma validate_fields_keys:
  "validate_fields vs raw = Inr args \<Longrightarrow> set (map fst args) \<subseteq> set (map fst vs)"
proof (induction vs arbitrary: args)
  case Nil
  then show ?case by simp
next
  case (Cons a vs)
  obtain k v where a: "a = (k, v)" by (cases a)
  from Cons.prems a obtain ov rest where
    rest: "validate_fields vs raw = Inr rest"
    and args: "args = (case ov of None \<Rightarrow> rest | Some x \<Rightarrow> (k, x) # rest)"
    by (auto split: sum.splits)
  from Cons.IH [OF rest] args a show ?case
    by (auto split: option.splits)
qed

lemma validate_fields_lookup:
  "validate_fields vs raw = Inr args \<Longrightarrow> distinct (map fst vs) \<Longrightarrow> (k, v) \<in> set vs \<Longrightarrow>
   v (map_of raw k) = Inr ov \<Longrightarrow> map_of args k = ov"
proof (induction vs arbitrary: args)
  case Nil
  then show ?case by simp
next
  case (Cons a vs)
  obtain k' v' where a: "a = (k', v')" by (cases a)
  from Cons.prems(1) a obtain ov' rest where
    head: "v' (map_of raw k') = Inr ov'"
    and rest: "validate_fields vs raw = Inr rest"
    and args: "args = (case ov' of None \<Rightarrow> rest | Some x \<Rightarrow> (k', x) # rest)"
    by (auto split: sum.splits)
  from Cons.prems(2) a have fresh: "k' \<notin> set (map fst vs)" and dist: "distinct (map fst vs)"
    by simp_all
  from validate_fields_keys [OF rest] fresh have absent: "map_of rest k' = None"
    by (metis map_of_eq_None_iff set_map subsetD)
  show ?case
  proof (cases "(k, v) \<in> set vs")
    case True
    then have "k \<noteq> k'" using fresh by force
    moreover from Cons.IH [OF rest dist True Cons.prems(4)] have "map_of rest k = ov" .
    ultimately show ?thesis using args by (simp split: option.splits)
  next
    case False
    with Cons.prems(3) a have "k = k'" "v = v'" by simp_all
    with head Cons.prems(4) have "ov' = ov" by simp
    with args absent \<open>k = k'\<close> show ?thesis by (simp split: option.splits)
  qed
qed

lemma validate_default: "validate (SOptional s (Some d)) None = Inr (Some d)"
  by simp

text \<open>
  C6. When a tool declares an optional parameter with a default and the raw input omits
  it, the validated record the handler receives binds the parameter to the default. So
  the forecast handler runs with \<open>days = 7\<close> and the repository search with
  \<open>per_page = 30\<close> and \<open>page = 1\<close>.
\<close>

theorem C6_default_substituted:
  "(distinct (map fst (inputSchema t)) \<and> (k, SOptional s (Some d)) \<in> set (inputSchema t)
      \<and> map_of raw k = None \<and> validate_input (inputSchema t) raw = Inr args \<longrightarrow>
    map_of args k = Some d \<and> invoke_tool t raw calls = handler t args calls)
   \<and> (map_of raw ''location'' = Some (JStr location) \<and> map_of raw ''days'' = None \<longrightarrow>
    invoke_tool (get_weather_forecast_tool rt up) raw wcalls =
      get_weather_forecast rt up location 7 wcalls)
   \<and> (map_of raw ''query'' = Some (JStr query) \<and> map_of raw ''per_page'' = None
      \<and> map_of raw ''page'' = None \<longrightarrow>
    invoke_tool (search_repositories_tool jrt ok) raw gcalls =
      search_repositories jrt ok query 30 1 gcalls)"
proof (intro conjI impI)
  assume h: "distinct (map fst (inputSchema t)) \<and> (k, SOptional s (Some d)) \<in> set (inputSchema t)
      \<and> map_of raw k = None \<and> validate_input (inputSchema t) raw = Inr args"
  then have "(k, validate (SOptional s (Some d))) \<in> set (map (map_prod id validate) (inputSchema t))"
    by force
  moreover from h have "distinct (map fst (map (map_prod id validate) (inputSchema t)))"
    by (simp add: comp_def)
  moreover from h have "validate (SOptional s (Some d)) (map_of raw k) = Inr (Some d)"
    by simp
  moreover from h have "validate_fields (map (map_prod id validate) (inputSchema t)) raw = Inr args"
    by (simp add: validate_input_def)
  ultimately show "map_of args k = Some d"
    using validate_fields_lookup by blast
  from h show "invoke_tool t raw calls = handler t args calls"
    by (simp add: invoke_tool_def)
next
  assume "map_of raw ''location'' = Some (JStr location) \<and> map_of raw ''days'' = None"
  then show "invoke_tool (get_weather_forecast_tool rt up) raw wcalls =
      get_weather_forecast rt up location 7 wcalls"
    by (simp add: invoke_tool_def validate_input_def get_weather_forecast_tool_def
        location_schema_def str_arg_def num_arg_def)
next
  assume "map_of raw ''query'' = Some (JStr query) \<and> map_of raw ''per_page'' = None
      \<and> map_of raw ''page'' = None"
  then show "invoke_tool (search_repositories_tool jrt ok) raw gcalls =
      search_repositories jrt ok query 30 1 gcalls"
    by (simp add: invoke_tool_def validate_input_def search_repositories_tool_def
        str_arg_def num_arg_def)
qed


text \<open>
  C6 on the stubs: the forecast tool called with a location only validates to
  \<open>days = 7\<close>, and the repository search called with a query only asks Octokit for page 1
  with 30 results per page.
\<close>

theorem C6_default_substituted_witness:
  "validate_input (inputSchema (get_weather_forecast_tool stub_runtime stub_weather))
     [(''location'', JStr ''Boston'')] =
     Inr [(''location'', JStr ''Boston''), (''days'', JNum 7)]
   \<and> map_of [(''location'', JStr ''Boston''), (''days'', JNum 7)] ''days'' = Some (JNum 7)
   \<and> invoke_tool (get_weather_forecast_tool stub_runtime stub_weather)
       [(''location'', JStr ''Boston'')] [] =
     get_weather_forecast stub_runtime stub_weather ''Boston'' 7 []
   \<and> invoke_tool (search_repositories_tool stub_json_runtime stub_octokit)
       [(''query'', JStr ''mcp'')] [] =
     (Inr [Text ''{}''], [Search_repos ''mcp'' 30 1])"
proof -
  let ?t = "get_weather_forecast_tool stub_runtime stub_weather"
  let ?raw = "[(''location'', JStr ''Boston'')]"
  have h: "distinct (map fst (inputSchema ?t))
      \<and> (''days'', SOptional SNumber (Some (JNum 7))) \<in> set (inputSchema ?t)
      \<and> map_of ?raw ''days'' = None
      \<and> validate_input (inputSchema ?t) ?raw =
          Inr [(''location'', JStr ''Boston''), (''days'', JNum 7)]"
    by (simp add: get_weather_forecast_tool_def location_schema_def validate_input_def)
  have w: "map_of ?raw ''location'' = Some (JStr ''Boston'') \<and> map_of ?raw ''days'' = None"
    by simp
  have q: "map_of [(''query'', JStr ''mcp'')] ''query'' = Some (JStr ''mcp'')
      \<and> map_of [(''query'', JStr ''mcp'')] ''per_page'' = None
      \<and> map_of [(''query'', JStr ''mcp'')] ''page'' = None"
    by simp
  from C6_default_substituted [where t = ?t and k = "''days''" and s = SNumber
      and d = "JNum 7" and raw = ?raw and args = "[(''location'', JStr ''Boston''), (''days'', JNum 7)]",
      THEN conjunct1, THEN mp, OF h]
  have "map_of [(''location'', JStr ''Boston''), (''days'', JNum 7)] ''days'' = Some (JNum 7)"
    by blast
  moreover from C6_default_substituted [where raw = ?raw and location = "''Boston''"
      and rt = stub_runtime and up = stub_weather and wcalls = "[]",
      THEN conjunct2, THEN conjunct1, THEN mp, OF w]
  have "invoke_tool ?t ?raw [] =
      get_weather_forecast stub_runtime stub_weather ''Boston'' 7 []" .
  moreover from C6_default_substituted [where raw = "[(''query'', JStr ''mcp'')]"
      and query = "''mcp''" and jrt = stub_json_runtime and ok = stub_octokit and gcalls = "[]",
      THEN conjunct2, THEN conjunct2, THEN mp, OF q]
  have "invoke_tool (search_repositories_tool stub_json_runtime stub_octokit)
       [(''query'', JStr ''mcp'')] [] =
     search_repositories stub_json_runtime stub_octokit ''mcp'' 30 1 []" .
  moreover have "search_repositories stub_json_runtime stub_octokit ''mcp'' 30 1 [] =
     (Inr [Text ''{}''], [Search_repos ''mcp'' 30 1])"
    by (simp add: search_repositories_apply search_repositories_try_def bind_apply
        octokit_search_repos_def stub_octokit_def stub_json_runtime_def return_def)
  ultimately show ?thesis using h by simp
qed

lemma validate_fields_cong:
  "(\<And>k. k \<in> set (map fst vs) \<Longrightarrow> map_of raw k = map_of raw' k) \<Longrightarrow>
   validate_fields vs raw = validate_fields vs raw'"
proof (induction vs)
  case Nil
  show ?case by simp
next
  case (Cons a vs)
  obtain k v where a: "a = (k, v)" by (cases a)
  from Cons.prems a have "map_of raw k = map_of raw' k" by simp
  moreover from Cons have "validate_fields vs raw = validate_fields vs raw'" by simp
  ultimately show ?case using a by (simp split: sum.split)
qed

lemma map_of_without:
  "k' \<noteq> k \<Longrightarrow> map_of (raw1 @ (k, v) # raw2) k' = map_of (raw1 @ raw2) k'"
  by (simp add: map_add_def split: option.split)

text \<open>
  C8. A member of the raw input whose name the tool's schema does not declare changes
  nothing: the invocation with it equals the invocation on the input without it.
\<close>

theorem C8_undeclared_parameter_ignored:
  assumes "k \<notin> set (map fst (inputSchema t))"
  shows "invoke_tool t (raw1 @ (k, v) # raw2) calls = invoke_tool t (raw1 @ raw2) calls"
proof -
  have "validate_input (inputSchema t) (raw1 @ (k, v) # raw2) =
        validate_input (inputSchema t) (raw1 @ raw2)"
    unfolding validate_input_def
  proof (rule validate_fields_cong)
    fix k'
    assume "k' \<in> set (map fst (map (map_prod id validate) (inputSchema t)))"
    then have "k' \<in> set (map fst (inputSchema t))" by (simp add: comp_def)
    with assms have "k' \<noteq> k" by blast
    then show "map_of (raw1 @ (k, v) # raw2) k' = map_of (raw1 @ raw2) k'"
      by (rule map_of_without)
  qed
  then show ?thesis by (simp add: invoke_tool_def)
qed

theorem C8_undeclared_parameter_ignored_witness:
  "invoke_tool (search_repositories_tool stub_json_runtime stub_octokit)
     ([(''query'', JStr ''mcp'')] @ (''verbose'', JBool True) # [(''page'', JNum 2)]) [] =
   invoke_tool (search_repositories_tool stub_json_runtime stub_octokit)
     ([(''query'', JStr ''mcp'')] @ [(''page'', JNum 2)]) []
   \<and> invoke_tool (search_repositories_tool stub_json_runtime stub_octokit)
     ([(''query'', JStr ''mcp'')] @ [(''page'', JNum 2)]) [] =
     (Inr [Text ''{}''], [Search_repos ''mcp'' 30 2])"
proof -
  have "''verbose'' \<notin> set (map fst (inputSchema (search_repositories_tool stub_json_runtime stub_octokit)))"
    by (simp add: search_repositories_tool_def)
  from C8_undeclared_parameter_ignored [OF this]
  have "invoke_tool (search_repositories_tool stub_json_runtime stub_octokit)
     ([(''query'', JStr ''mcp'')] @ (''verbose'', JBool True) # [(''page'', JNum 2)]) [] =
   invoke_tool (search_repositories_tool stub_json_runtime stub_octokit)
     ([(''query'', JStr ''mcp'')] @ [(''page'', JNum 2)]) []" .
  moreover have "invoke_tool (search_repositories_tool stub_json_runtime stub_octokit)
     ([(''query'', JStr ''mcp'')] @ [(''page'', JNum 2)]) [] =
     (Inr [Text ''{}''], [Search_repos ''mcp'' 30 2])"
    by (simp add: invoke_tool_def validate_input_def search_repositories_tool_def str_arg_def
        num_arg_def search_repositories_apply search_repositories_try_def bind_apply
        octokit_search_repos_def stub_octokit_def stub_json_runtime_def return_def)
  ultimately show ?thesis by blast
qed

section \<open>The registry\<close>

lemma register_distinct:
  "distinct (map tool_name reg) \<Longrightarrow> distinct (map tool_name (snd (register t reg)))"
  by (simp add: register_def registered_def)

lemma register_each_distinct:
  "distinct (map tool_name reg) \<Longrightarrow> distinct (map tool_name (register_each ts reg))"
  by (induction ts arbitrary: reg) (simp_all add: register_distinct)

text \<open>
  C5. After a successful registration of a tool, a second registration under the same
  name fails with DuplicateToolError and leaves the registry as it was, where the name
  still has the first definition alone; and a registry reached from the empty one by any
  sequence of registrations never holds two definitions with the same name.
\<close>

theorem C5_duplicate_name_rejected:
  "(fst (register t reg) = Inr () \<and> tool_name t' = tool_name t \<longrightarrow>
      register t' (snd (register t reg)) =
        (Inl (DuplicateToolError (tool_name t)), snd (register t reg))
      \<and> definitions_of (snd (register t' (snd (register t reg)))) (tool_name t) = [t])
   \<and> distinct (map tool_name (register_each ts []))"
proof (intro conjI impI)
  assume h: "fst (register t reg) = Inr () \<and> tool_name t' = tool_name t"
  then have fresh: "\<not> registered reg (tool_name t)"
    by (auto simp: register_def split: if_splits)
  then have reg1: "register t reg = (Inr (), reg @ [t])"
    by (simp add: register_def)
  with h show second: "register t' (snd (register t reg)) =
      (Inl (DuplicateToolError (tool_name t)), snd (register t reg))"
    by (simp add: register_def registered_def)
  from fresh have "\<forall>x\<in>set reg. tool_name x \<noteq> tool_name t"
    unfolding registered_def by (metis image_eqI set_map)
  then have "filter (\<lambda>x. tool_name x = tool_name t) reg = []"
    by (simp add: filter_empty_conv)
  with second reg1 show "definitions_of (snd (register t' (snd (register t reg)))) (tool_name t) = [t]"
    by (simp add: definitions_of_def)
next
  show "distinct (map tool_name (register_each ts []))"
    by (rule register_each_distinct) simp
qed

text \<open>
  C5 on the weather server: its five registrations succeed, and registering a tool named
  get\_weather\_forecast again fails and changes nothing.
\<close>

lemma weather_tool_names:
  "map tool_name (weather_tools rt up) =
     [''get_current_weather'', ''get_weather_forecast'', ''get_hourly_forecast'',
      ''get_weather_alerts'', ''find_weather_stations'']"
  by (simp add: weather_tools_def get_current_weather_tool_def get_weather_forecast_tool_def
      get_hourly_forecast_tool_def get_weather_alerts_tool_def find_weather_stations_tool_def)

lemma register_fresh:
  "tool_name t \<notin> set (map tool_name reg) \<Longrightarrow> register t reg = (Inr (), reg @ [t])"
  by (simp add: register_def registered_def)

lemma register_each_fresh:
  "distinct (map tool_name ts) \<Longrightarrow> set (map tool_name ts) \<inter> set (map tool_name reg) = {} \<Longrightarrow>
   register_each ts reg = reg @ ts"
proof (induction ts arbitrary: reg)
  case Nil
  show ?case by simp
next
  case (Cons t ts)
  from Cons.prems have "tool_name t \<notin> set (map tool_name reg)" by auto
  then have "register t reg = (Inr (), reg @ [t])" by (rule register_fresh)
  moreover from Cons.prems have "register_each ts (reg @ [t]) = (reg @ [t]) @ ts"
    by (intro Cons.IH) auto
  ultimately show ?case by simp
qed

lemma register_each_weather:
  "register_each (weather_tools rt up) [] = weather_tools rt up"
  using register_each_fresh [of "weather_tools rt up" "[]"]
  by (simp add: weather_tool_names)

theorem C5_duplicate_name_rejected_witness:
  "register (get_weather_forecast_tool stub_runtime stub_weather\<lparr>handler := stub_handler\<rparr>)
     [get_current_weather_tool stub_runtime stub_weather,
      get_weather_forecast_tool stub_runtime stub_weather] =
     (Inl (DuplicateToolError ''get_weather_forecast''),
      [get_current_weather_tool stub_runtime stub_weather,
       get_weather_forecast_tool stub_runtime stub_weather])
   \<and> register_each (weather_tools stub_runtime stub_weather) [] =
       weather_tools stub_runtime stub_weather
   \<and> distinct (map tool_name (weather_tools stub_runtime stub_weather))"
proof -
  let ?t = "get_weather_forecast_tool stub_runtime stub_weather"
  let ?reg = "[get_current_weather_tool stub_runtime stub_weather]"
  have names: "tool_name ?t = ''get_weather_forecast''"
    "tool_name (get_current_weather_tool stub_runtime stub_weather) = ''get_current_weather''"
    by (simp_all add: get_weather_forecast_tool_def get_current_weather_tool_def)
  have first: "register ?t ?reg = (Inr (), ?reg @ [?t])"
    by (rule register_fresh) (simp add: names)
  then have h: "fst (register ?t ?reg) = Inr ()
      \<and> tool_name (?t\<lparr>handler := stub_handler\<rparr>) = tool_name ?t"
    by simp
  from C5_duplicate_name_rejected [where t = ?t and reg = ?reg
      and t' = "?t\<lparr>handler := stub_handler\<rparr>", THEN conjunct1, THEN mp, OF h]
  have "register (?t\<lparr>handler := stub_handler\<rparr>) (snd (register ?t ?reg)) =
          (Inl (DuplicateToolError (tool_name ?t)), snd (register ?t ?reg))"
    by blast
  then have a: "register (?t\<lparr>handler := stub_handler\<rparr>) (?reg @ [?t]) =
          (Inl (DuplicateToolError ''get_weather_forecast''), ?reg @ [?t])"
    by (simp only: first snd_conv names)
  from C5_duplicate_name_rejected [where ts = "weather_tools stub_runtime stub_weather",
      THEN conjunct2]
  have b: "distinct (map tool_name (weather_tools stub_runtime stub_weather))"
    by (simp only: register_each_weather)
  from a b register_each_weather show ?thesis by simp
qed

section \<open>The pull-request stubs\<close>

text \<open>
  C10. The callbacks of update\_pull\_request\_branch and get\_pull\_request\_comments return
  the single text block "Not implemented yet" and leave the log of upstream calls as it
  was, for every validated record; so does an invocation on any raw input their schemas
  accept.
\<close>

theorem C10_stubs_not_implemented:
  "handler update_pull_request_branch_tool args calls = (Inr [Text ''Not implemented yet''], calls)
   \<and> handler get_pull_request_comments_tool args calls = (Inr [Text ''Not implemented yet''], calls)
   \<and> (validate_input (inputSchema update_pull_request_branch_tool) raw = Inr args \<longrightarrow>
        invoke_tool update_pull_request_branch_tool raw calls =
          (Inr [Text ''Not implemented yet''], calls))
   \<and> (validate_input (inputSchema get_pull_request_comments_tool) raw = Inr args \<longrightarrow>
        invoke_tool get_pull_request_comments_tool raw calls =
          (Inr [Text ''Not implemented yet''], calls))"
  by (simp add: update_pull_request_branch_tool_def get_pull_request_comments_tool_def
      update_pull_request_branch_def get_pull_request_comments_def invoke_tool_def return_def)

theorem C10_stubs_not_implemented_witness:
  "invoke_tool update_pull_request_branch_tool
     [(''owner'', JStr ''o''), (''repo'', JStr ''r''), (''pullNumber'', JNum 7)] [] =
     (Inr [Text ''Not implemented yet''], [])
   \<and> invoke_tool get_pull_request_comments_tool
     [(''owner'', JStr ''o''), (''repo'', JStr ''r''), (''pullNumber'', JNum 7)] [] =
     (Inr [Text ''Not implemented yet''], [])"
proof -
  let ?raw = "[(''owner'', JStr ''o''), (''repo'', JStr ''r''), (''pullNumber'', JNum 7)]"
  have a: "validate_input (inputSchema update_pull_request_branch_tool) ?raw = Inr ?raw"
    by (simp add: validate_input_def update_pull_request_branch_tool_def)
  have b: "validate_input (inputSchema get_pull_request_comments_tool) ?raw = Inr ?raw"
    by (simp add: validate_input_def get_pull_request_comments_tool_def)
  from C10_stubs_not_implemented [where raw = ?raw and args = ?raw and calls = "[]"] a b
  show ?thesis by blast
qed

end
